theory Spec2Isabelle
  imports Complex_Main "HOL-Library.Monad_Syntax"
begin

section \<open>Data model of the snapshot\<close>

text \<open>
  The engine of \<^verbatim>\<open>example_snakes/MikeSnake/main.py\<close> reads a nested dictionary.
  A coordinate is the dictionary with the keys \<^verbatim>\<open>x\<close> and \<^verbatim>\<open>y\<close>, a snake has an
  identifier, a body (head first, tail last) and a health, the board has its two
  dimensions, the food list and the list of all snakes, and the snapshot holds the
  turn number, the board and the controlled snake \<^verbatim>\<open>you\<close>.
\<close>

record position =
  pos_x :: int
  pos_y :: int

record snake =
  snake_id :: string
  body :: "position list"
  health :: int

record board =
  width :: int
  height :: int
  food :: "position list"
  snakes :: "snake list"

record game_state =
  turn :: int
  board :: board
  you :: snake

datatype Move = Up | Down | Left | Right

text \<open>
  Scores start as the integer 0 and are updated with integers and with the results of
  Python's true division. They are modelled as exact rationals: every integer update is
  exact, and a quotient is the exact quotient where Python rounds it to the nearest
  double.
\<close>

type_synonym scores = "Move \<Rightarrow> rat"
type_synonym mask = "Move \<Rightarrow> bool"

definition possible_moves :: "Move list" where
  "possible_moves = [Up, Down, Left, Right]"

text \<open>The slice \<^verbatim>\<open>xs[:-1]\<close>: every element but the last, and the empty list for the empty list.\<close>

definition drop_last :: "'a list \<Rightarrow> 'a list" where
  "drop_last xs = take (length xs - 1) xs"

text \<open>The list comprehension that keeps the snakes whose identifier differs from \<^verbatim>\<open>you\<close>'s.\<close>

definition opponents_of :: "game_state \<Rightarrow> snake list" where
  "opponents_of gs = filter (\<lambda>s. snake_id s \<noteq> snake_id (you gs)) (snakes (board gs))"

section \<open>Utility functions\<close>

fun get_next_position :: "position \<Rightarrow> Move \<Rightarrow> position" where
  "get_next_position p Up = \<lparr>pos_x = pos_x p, pos_y = pos_y p + 1\<rparr>"
| "get_next_position p Down = \<lparr>pos_x = pos_x p, pos_y = pos_y p - 1\<rparr>"
| "get_next_position p Left = \<lparr>pos_x = pos_x p - 1, pos_y = pos_y p\<rparr>"
| "get_next_position p Right = \<lparr>pos_x = pos_x p + 1, pos_y = pos_y p\<rparr>"

definition is_in_bounds :: "position \<Rightarrow> int \<Rightarrow> int \<Rightarrow> bool" where
  "is_in_bounds p w h \<longleftrightarrow> 0 \<le> pos_x p \<and> pos_x p < w \<and> 0 \<le> pos_y p \<and> pos_y p < h"

definition positions_equal :: "position \<Rightarrow> position \<Rightarrow> bool" where
  "positions_equal p q \<longleftrightarrow> pos_x p = pos_x q \<and> pos_y p = pos_y q"

definition is_collision_with_body :: "position \<Rightarrow> position list \<Rightarrow> bool" where
  "is_collision_with_body p bd = list_ex (\<lambda>seg. pos_x p = pos_x seg \<and> pos_y p = pos_y seg) bd"

fun is_collision_with_opponents :: "position \<Rightarrow> snake list \<Rightarrow> bool \<Rightarrow> bool" where
  "is_collision_with_opponents p [] exclude_tails = False"
| "is_collision_with_opponents p (opponent # rest) exclude_tails =
     (if is_collision_with_body p
           (if exclude_tails then drop_last (body opponent) else body opponent)
      then True
      else is_collision_with_opponents p rest exclude_tails)"

definition manhattan_distance :: "position \<Rightarrow> position \<Rightarrow> int" where
  "manhattan_distance p q = \<bar>pos_x p - pos_x q\<bar> + \<bar>pos_y p - pos_y q\<bar>"

section \<open>Dynamic aggression threshold\<close>

text \<open>
  \<^verbatim>\<open>_calculate_dynamic_aggressive_threshold\<close>. The average is a true division of two
  integers; it is compared with integers only, and the exact quotient compares with an
  integer as the rounded one does for every list that fits in memory.
\<close>

definition calculate_dynamic_aggressive_threshold :: "game_state \<Rightarrow> int" where
  "calculate_dynamic_aggressive_threshold gs =
     (let my_length = int (length (body (you gs)));
          opponents = opponents_of gs
      in if opponents = [] then 6
         else
           let avg_opponent_length =
                 rat_of_int (sum_list (map (\<lambda>s. int (length (body s))) opponents))
                   / rat_of_int (int (length opponents));
               max_opponent_length = Max (set (map (\<lambda>s. int (length (body s))) opponents))
           in if avg_opponent_length > rat_of_int (my_length + 3) then 10
              else if max_opponent_length > my_length + 4 then 11
              else if avg_opponent_length < rat_of_int (my_length - 2) then 6
              else if length opponents \<ge> 4 then 9
              else if length opponents \<le> 2 then 7
              else 8)"

text \<open>
  The rule table as the specification words it, over the opponent count, the average and
  the maximum opponent length and the length of the controlled snake.
\<close>

definition threshold_rules :: "nat \<Rightarrow> rat \<Rightarrow> int \<Rightarrow> int \<Rightarrow> int" where
  "threshold_rules n avg mx self_len =
     (if n = 0 then 6
      else if avg > rat_of_int self_len + 3 then 10
      else if mx > self_len + 4 then 11
      else if avg < rat_of_int self_len - 2 then 6
      else if n \<ge> 4 then 9
      else if n \<le> 2 then 7
      else 8)"

definition opponent_lengths :: "game_state \<Rightarrow> int list" where
  "opponent_lengths gs = map (\<lambda>s. int (length (body s))) (opponents_of gs)"

definition average_opponent_length :: "game_state \<Rightarrow> rat" where
  "average_opponent_length gs =
     rat_of_int (sum_list (opponent_lengths gs)) / rat_of_int (int (length (opponent_lengths gs)))"

definition self_length :: "game_state \<Rightarrow> int" where
  "self_length gs = int (length (body (you gs)))"

section \<open>Python's \<^verbatim>\<open>max\<close> and \<^verbatim>\<open>min\<close> with a key\<close>

text \<open>
  \<^verbatim>\<open>max(xs, key=k)\<close> keeps the first element and replaces it only by a later element
  whose key is strictly greater, so the first maximal element wins; \<^verbatim>\<open>min\<close> is dual.
  On an empty list both raise, which is \<open>None\<close> here.
\<close>

fun max_from :: "('a \<Rightarrow> 'k::linorder) \<Rightarrow> 'a \<Rightarrow> 'a list \<Rightarrow> 'a" where
  "max_from key best [] = best"
| "max_from key best (x # xs) = max_from key (if key x > key best then x else best) xs"

fun min_from :: "('a \<Rightarrow> 'k::linorder) \<Rightarrow> 'a \<Rightarrow> 'a list \<Rightarrow> 'a" where
  "min_from key best [] = best"
| "min_from key best (x # xs) = min_from key (if key x < key best then x else best) xs"

fun py_max :: "('a \<Rightarrow> 'k::linorder) \<Rightarrow> 'a list \<Rightarrow> 'a option" where
  "py_max key [] = None"
| "py_max key (x # xs) = Some (max_from key x xs)"

fun py_min :: "('a \<Rightarrow> 'k::linorder) \<Rightarrow> 'a list \<Rightarrow> 'a option" where
  "py_min key [] = None"
| "py_min key (x # xs) = Some (min_from key x xs)"

text \<open>The subscript \<^verbatim>\<open>xs[0]\<close>, which raises IndexError on the empty list.\<close>

fun first :: "'a list \<Rightarrow> 'a option" where
  "first [] = None"
| "first (x # xs) = Some x"

text \<open>A \<^verbatim>\<open>for\<close> loop whose body may raise: the first failure ends the loop.\<close>

fun for_each :: "('a \<Rightarrow> 's \<Rightarrow> 's option) \<Rightarrow> 'a list \<Rightarrow> 's \<Rightarrow> 's option" where
  "for_each f [] s = Some s"
| "for_each f (x # xs) s = (case f x s of None \<Rightarrow> None | Some s' \<Rightarrow> for_each f xs s')"

section \<open>Safety filter\<close>

text \<open>
  \<^verbatim>\<open>_evaluate_basic_safety\<close> runs over the four moves, updating the score table it
  was given and the mask it returns. Each of the four tests ends the iteration with
  \<^verbatim>\<open>continue\<close>, so a move is penalised once.
\<close>

definition my_neck_of :: "position list \<Rightarrow> position option" where
  "my_neck_of my_body = (if length my_body > 1 then Some (my_body ! 1) else None)"

definition basic_safety_step ::
  "position \<Rightarrow> position list \<Rightarrow> snake list \<Rightarrow> int \<Rightarrow> int \<Rightarrow> Move \<Rightarrow> scores \<times> mask \<Rightarrow> scores \<times> mask" where
  "basic_safety_step my_head my_body opponents board_width board_height m st =
     (let move_scores = fst st; safe_mask = snd st;
          next_pos = get_next_position my_head m;
          unsafe = (move_scores(m := move_scores m - 10000), safe_mask(m := False))
      in if (case my_neck_of my_body of None \<Rightarrow> False
             | Some my_neck \<Rightarrow> pos_x next_pos = pos_x my_neck \<and> pos_y next_pos = pos_y my_neck)
         then unsafe
         else if \<not> is_in_bounds next_pos board_width board_height then unsafe
         else if is_collision_with_body next_pos (drop_last my_body) then unsafe
         else if is_collision_with_opponents next_pos opponents True then unsafe
         else (move_scores, safe_mask))"

definition evaluate_basic_safety ::
  "position \<Rightarrow> position list \<Rightarrow> snake list \<Rightarrow> int \<Rightarrow> int \<Rightarrow> scores \<Rightarrow> scores \<times> mask" where
  "evaluate_basic_safety my_head my_body opponents board_width board_height move_scores =
     fold (basic_safety_step my_head my_body opponents board_width board_height)
       possible_moves (move_scores, \<lambda>m. True)"

section \<open>Reachability estimator\<close>

definition pos_tuple :: "position \<Rightarrow> int \<times> int" where
  "pos_tuple p = (pos_x p, pos_y p)"

definition obstacles_of :: "game_state \<Rightarrow> (int \<times> int) set" where
  "obstacles_of gs =
     set (map pos_tuple (drop_last (body (you gs))))
     \<union> set (concat (map (\<lambda>snake. map pos_tuple (drop_last (body snake))) (opponents_of gs)))"

definition base_max_of :: "int \<Rightarrow> int \<Rightarrow> int" where
  "base_max_of board_width board_height =
     (let board_size = board_width * board_height
      in if board_size \<le> 100 then 80
         else if board_size \<le> 200 then 120
         else min (board_size div 2) 250)"

text \<open>The inner loop over the four neighbours of the cell taken from the queue.\<close>

definition flood_visit ::
  "(int \<times> int) set \<Rightarrow> int \<Rightarrow> int \<Rightarrow> position \<Rightarrow> Move
     \<Rightarrow> position list \<times> (int \<times> int) set \<Rightarrow> position list \<times> (int \<times> int) set" where
  "flood_visit obstacles board_width board_height current m st =
     (let queue = fst st; visited = snd st;
          next_pos = get_next_position current m
      in if pos_tuple next_pos \<notin> visited \<and> pos_tuple next_pos \<notin> obstacles
            \<and> is_in_bounds next_pos board_width board_height
         then (queue @ [next_pos], insert (pos_tuple next_pos) visited)
         else (queue, visited))"

text \<open>
  The \<^verbatim>\<open>while queue and count < base_max\<close> loop on the state (queue, visited, count).
  It returns the whole final state; the source returns its \<^verbatim>\<open>count\<close>.
\<close>

function flood_loop ::
  "(int \<times> int) set \<Rightarrow> int \<Rightarrow> int \<Rightarrow> int \<Rightarrow> int
     \<Rightarrow> position list \<Rightarrow> (int \<times> int) set \<Rightarrow> int
     \<Rightarrow> position list \<times> (int \<times> int) set \<times> int" where
  "flood_loop obstacles board_width board_height base_max safe_space queue visited count =
     (case queue of
        [] \<Rightarrow> (queue, visited, count)
      | current # rest \<Rightarrow>
          if \<not> count < base_max then (queue, visited, count)
          else if count + 1 \<ge> safe_space then (rest, visited, count + 1)
          else
            let st = fold (flood_visit obstacles board_width board_height current)
                       possible_moves (rest, visited)
            in flood_loop obstacles board_width board_height base_max safe_space
                 (fst st) (snd st) (count + 1))"
  by pat_completeness auto
termination
  by (relation "measure (\<lambda>(obstacles, w, h, base_max, safe_space, queue, visited, count).
        nat (base_max - count))") auto

declare flood_loop.simps [simp del]

definition flood_fill_state :: "position \<Rightarrow> game_state \<Rightarrow> position list \<times> (int \<times> int) set \<times> int" where
  "flood_fill_state start_pos gs =
     flood_loop (obstacles_of gs) (width (board gs)) (height (board gs))
       (base_max_of (width (board gs)) (height (board gs)))
       (int (length (body (you gs))) * 3)
       [start_pos] {pos_tuple start_pos} 0"

definition flood_fill_dynamic :: "position \<Rightarrow> game_state \<Rightarrow> int" where
  "flood_fill_dynamic start_pos gs = snd (snd (flood_fill_state start_pos gs))"

section \<open>Space evaluation\<close>

definition space_step :: "position \<Rightarrow> int \<Rightarrow> mask \<Rightarrow> game_state \<Rightarrow> Move \<Rightarrow> scores \<Rightarrow> scores" where
  "space_step my_head my_length safe_mask gs m move_scores =
     (if \<not> safe_mask m then move_scores
      else
        let next_pos = get_next_position my_head m;
            available_space = flood_fill_dynamic next_pos gs;
            sc1 = move_scores(m := move_scores m + rat_of_int (available_space * 10))
        in if available_space < my_length
           then
             let penalty = (my_length - available_space) * 50;
                 sc2 = sc1(m := sc1 m - rat_of_int penalty)
             in if available_space < my_length div 2 then sc2(m := sc2 m - 200) else sc2
           else sc1)"

definition evaluate_space_availability ::
  "position \<Rightarrow> int \<Rightarrow> scores \<Rightarrow> mask \<Rightarrow> game_state \<Rightarrow> scores" where
  "evaluate_space_availability my_head my_length move_scores safe_mask gs =
     fold (space_step my_head my_length safe_mask gs) possible_moves move_scores"

section \<open>Emergency strategy\<close>

definition LOW_HEALTH_THRESHOLD :: int where "LOW_HEALTH_THRESHOLD = 30"
definition CRITICAL_HEALTH_THRESHOLD :: int where "CRITICAL_HEALTH_THRESHOLD = 15"
definition HUNT_REWARD_THRESHOLD :: int where "HUNT_REWARD_THRESHOLD = 3"

record food_option =
  fo_target :: position
  fo_distance :: int
  fo_score :: rat

record hunt_option =
  ho_target :: position
  ho_distance :: int
  ho_score :: rat
  ho_third_party_risk :: rat
  ho_path_safe :: bool

text \<open>\<^verbatim>\<open>_apply_hunting_strategy\<close> and \<^verbatim>\<open>_apply_food_seeking\<close>: one pass over the four moves.\<close>

definition apply_hunting_strategy :: "position \<Rightarrow> hunt_option \<Rightarrow> scores \<Rightarrow> mask \<Rightarrow> scores" where
  "apply_hunting_strategy my_head hunt_opt move_scores safe_mask =
     fold (\<lambda>m sc.
             if \<not> safe_mask m then sc
             else
               let next_pos = get_next_position my_head m;
                   distance = manhattan_distance next_pos (ho_target hunt_opt)
               in sc(m := sc m + ho_score hunt_opt / rat_of_int (distance + 1)))
       possible_moves move_scores"

definition apply_food_seeking :: "position \<Rightarrow> position \<Rightarrow> scores \<Rightarrow> mask \<Rightarrow> rat \<Rightarrow> scores" where
  "apply_food_seeking my_head target_food move_scores safe_mask weight =
     fold (\<lambda>m sc.
             if \<not> safe_mask m then sc
             else
               let next_pos = get_next_position my_head m;
                   distance = manhattan_distance next_pos target_food
               in sc(m := sc m + weight / rat_of_int (distance + 1)))
       possible_moves move_scores"

text \<open>The food option: the nearest food, kept when it is nearer than the health allows.\<close>

definition best_food_option_of :: "position \<Rightarrow> int \<Rightarrow> position list \<Rightarrow> food_option option" where
  "best_food_option_of my_head my_health fd =
     (case py_min (manhattan_distance my_head) fd of
        None \<Rightarrow> None
      | Some closest_food \<Rightarrow>
          let food_distance = manhattan_distance my_head closest_food
          in if food_distance < my_health
             then Some \<lparr>fo_target = closest_food, fo_distance = food_distance,
                        fo_score = 500 / rat_of_int (food_distance + 1)\<rparr>
             else None)"

text \<open>The inner loop over the other opponents, summing the third-party threat.\<close>

definition third_party_step :: "snake \<Rightarrow> position \<Rightarrow> int \<Rightarrow> snake \<Rightarrow> rat \<Rightarrow> rat option" where
  "third_party_step opponent opponent_head my_length other_opponent third_party_threat =
     (if snake_id other_opponent = snake_id opponent then Some third_party_threat
      else
        case first (body other_opponent) of
          None \<Rightarrow> None
        | Some other_head \<Rightarrow>
            let other_length = int (length (body other_opponent))
            in if other_length \<ge> my_length
               then
                 let distance_to_other = manhattan_distance opponent_head other_head
                 in if distance_to_other \<le> 5
                    then Some (third_party_threat + 200 / rat_of_int (distance_to_other + 1))
                    else Some third_party_threat
               else Some third_party_threat)"

text \<open>One iteration of the loop over the opponents that looks for the best hunt option.\<close>

definition hunt_step ::
  "position \<Rightarrow> int \<Rightarrow> int \<Rightarrow> snake list \<Rightarrow> game_state \<Rightarrow> snake
     \<Rightarrow> hunt_option option \<Rightarrow> hunt_option option option" where
  "hunt_step my_head my_length my_health opponents gs opponent best_hunt_option =
     (let opponent_length = int (length (body opponent))
      in case first (body opponent) of
           None \<Rightarrow> None
         | Some opponent_head \<Rightarrow>
             if opponent_length \<ge> my_length then Some best_hunt_option
             else
               let distance_to_opponent = manhattan_distance my_head opponent_head
               in if distance_to_opponent \<ge> my_health - 5 then Some best_hunt_option
                  else
                    let potential_food_gain = opponent_length
                    in (case for_each (third_party_step opponent opponent_head my_length) opponents 0 of
                         None \<Rightarrow> None
                       | Some third_party_threat \<Rightarrow>
                           let temp_game_state =
                                 gs\<lparr>you := \<lparr>snake_id = snake_id (you gs),
                                             body = opponent_head # drop_last (body (you gs)),
                                             health = health (you gs)\<rparr>\<rparr>;
                               chase_space = flood_fill_dynamic opponent_head temp_game_state;
                               chase_path_safe = (chase_space \<ge> my_length);
                               hunt_score =
                                 rat_of_int (potential_food_gain * 50)
                                 - rat_of_int (distance_to_opponent * 10)
                                 - third_party_threat
                                 - (if chase_path_safe then 0 else 150)
                                 - 100
                           in if hunt_score > 50 \<and> potential_food_gain \<ge> HUNT_REWARD_THRESHOLD
                              then
                                if (case best_hunt_option of None \<Rightarrow> True
                                    | Some b \<Rightarrow> hunt_score > ho_score b)
                                then Some (Some \<lparr>ho_target = opponent_head,
                                                 ho_distance = distance_to_opponent,
                                                 ho_score = hunt_score,
                                                 ho_third_party_risk = third_party_threat,
                                                 ho_path_safe = chase_path_safe\<rparr>)
                                else Some best_hunt_option
                              else Some best_hunt_option))"

definition best_hunt_option_of ::
  "position \<Rightarrow> int \<Rightarrow> int \<Rightarrow> snake list \<Rightarrow> game_state \<Rightarrow> hunt_option option option" where
  "best_hunt_option_of my_head my_length my_health opponents gs =
     for_each (hunt_step my_head my_length my_health opponents gs) opponents None"

text \<open>The decision between the two options, and its projection onto the score table.\<close>

definition emergency_decide ::
  "position \<Rightarrow> food_option option \<Rightarrow> hunt_option option \<Rightarrow> scores \<Rightarrow> mask \<Rightarrow> scores" where
  "emergency_decide my_head best_food_option best_hunt_option move_scores safe_mask =
     (case (best_hunt_option, best_food_option) of
        (Some hunt_opt, Some food_opt) \<Rightarrow>
          if ho_score hunt_opt > fo_score food_opt * 2 \<and> ho_path_safe hunt_opt
             \<and> ho_third_party_risk hunt_opt < 100
          then apply_hunting_strategy my_head hunt_opt move_scores safe_mask
          else apply_food_seeking my_head (fo_target food_opt) move_scores safe_mask 500
      | (Some hunt_opt, None) \<Rightarrow> apply_hunting_strategy my_head hunt_opt move_scores safe_mask
      | (None, Some food_opt) \<Rightarrow>
          apply_food_seeking my_head (fo_target food_opt) move_scores safe_mask 500
      | (None, None) \<Rightarrow> move_scores)"

definition evaluate_emergency_strategy_enhanced ::
  "position \<Rightarrow> int \<Rightarrow> int \<Rightarrow> position list \<Rightarrow> snake list \<Rightarrow> scores \<Rightarrow> mask \<Rightarrow> game_state
     \<Rightarrow> scores option" where
  "evaluate_emergency_strategy_enhanced my_head my_length my_health fd opponents
       move_scores safe_mask gs =
     (let best_food_option = best_food_option_of my_head my_health fd
      in case best_hunt_option_of my_head my_length my_health opponents gs of
           None \<Rightarrow> None
         | Some best_hunt_option \<Rightarrow>
             Some (emergency_decide my_head best_food_option best_hunt_option
                     move_scores safe_mask))"

section \<open>Smart food seeking\<close>

definition simulated_state :: "position \<Rightarrow> game_state \<Rightarrow> game_state" where
  "simulated_state new_head gs =
     gs\<lparr>you := \<lparr>snake_id = snake_id (you gs),
                 body = new_head # drop_last (body (you gs)),
                 health = health (you gs)\<rparr>\<rparr>"

definition estimate_space_after_reaching :: "position \<Rightarrow> game_state \<Rightarrow> int" where
  "estimate_space_after_reaching food_pos gs =
     flood_fill_dynamic food_pos (simulated_state food_pos gs)"

definition threat_step :: "position \<Rightarrow> int \<Rightarrow> int \<Rightarrow> snake \<Rightarrow> rat \<Rightarrow> rat option" where
  "threat_step food_pos my_length my_distance opponent threat_count =
     (case first (body opponent) of
        None \<Rightarrow> None
      | Some opp_head \<Rightarrow>
          let opp_distance = manhattan_distance opp_head food_pos;
              opp_length = int (length (body opponent))
          in if opp_distance \<le> my_distance \<and> opp_length \<ge> my_length
             then Some (threat_count + 10 / rat_of_int (opp_distance + 1))
             else Some threat_count)"

definition count_threats_near :: "position \<Rightarrow> snake list \<Rightarrow> int \<Rightarrow> position \<Rightarrow> rat option" where
  "count_threats_near food_pos opponents my_length my_head =
     for_each (threat_step food_pos my_length (manhattan_distance my_head food_pos)) opponents 0"

definition food_eval_step ::
  "position \<Rightarrow> int \<Rightarrow> snake list \<Rightarrow> game_state \<Rightarrow> position
     \<Rightarrow> (position \<times> rat) list \<Rightarrow> (position \<times> rat) list option" where
  "food_eval_step my_head my_length opponents gs f food_evaluations =
     (let distance = manhattan_distance my_head f;
          distance_score = 100 / rat_of_int (distance + 1);
          space = estimate_space_after_reaching f gs;
          space_score = rat_of_int space * 2
      in case count_threats_near f opponents my_length my_head of
           None \<Rightarrow> None
         | Some threat \<Rightarrow>
             let threat_score = - threat;
                 total_score = distance_score + space_score + threat_score
             in Some (food_evaluations @ [(f, total_score)]))"

definition evaluate_food_seeking_smart ::
  "position \<Rightarrow> position list \<Rightarrow> scores \<Rightarrow> mask \<Rightarrow> bool \<Rightarrow> bool \<Rightarrow> game_state \<Rightarrow> scores option" where
  "evaluate_food_seeking_smart my_head fd move_scores safe_mask is_critical need_food gs =
     (let my_length = int (length (body (you gs)));
          opponents = opponents_of gs
      in case for_each (food_eval_step my_head my_length opponents gs) fd [] of
           None \<Rightarrow> None
         | Some food_evaluations \<Rightarrow>
             (case py_max snd food_evaluations of
                None \<Rightarrow> None
              | Some best \<Rightarrow>
                  let best_food = fst best;
                      food_weight = (if is_critical then 200 else if need_food then 100 else 30)
                  in Some (fold (\<lambda>m sc.
                                   if \<not> safe_mask m then sc
                                   else
                                     let next_pos = get_next_position my_head m;
                                         distance_to_best = manhattan_distance next_pos best_food
                                     in sc(m := sc m + food_weight / rat_of_int (distance_to_best + 1)))
                             possible_moves move_scores)))"

section \<open>Aggressive strategy\<close>

definition aggressive_step :: "position \<Rightarrow> int \<Rightarrow> mask \<Rightarrow> snake \<Rightarrow> scores \<Rightarrow> scores option" where
  "aggressive_step my_head my_length safe_mask opponent move_scores =
     (case first (body opponent) of
        None \<Rightarrow> None
      | Some opponent_head \<Rightarrow>
          let opponent_length = int (length (body opponent))
          in if opponent_length < my_length
             then Some (fold (\<lambda>m sc.
                                if \<not> safe_mask m then sc
                                else
                                  let next_pos = get_next_position my_head m;
                                      distance = manhattan_distance next_pos opponent_head
                                  in sc(m := sc m + 50 / rat_of_int (distance + 1)))
                          possible_moves move_scores)
             else if opponent_length \<ge> my_length
             then Some (fold (\<lambda>m sc.
                                if \<not> safe_mask m then sc
                                else
                                  let next_pos = get_next_position my_head m;
                                      distance = manhattan_distance next_pos opponent_head
                                  in if distance \<le> 2
                                     then sc(m := sc m - 100 / rat_of_int (distance + 1))
                                     else sc)
                          possible_moves move_scores)
             else Some move_scores)"

definition evaluate_aggressive_strategy ::
  "position \<Rightarrow> int \<Rightarrow> snake list \<Rightarrow> scores \<Rightarrow> mask \<Rightarrow> scores option" where
  "evaluate_aggressive_strategy my_head my_length opponents move_scores safe_mask =
     for_each (aggressive_step my_head my_length safe_mask) opponents move_scores"

section \<open>Head-to-head defence\<close>

definition predict_opponent_next_moves :: "snake \<Rightarrow> int \<Rightarrow> int \<Rightarrow> int \<Rightarrow> position list option" where
  "predict_opponent_next_moves opponent board_width board_height depth =
     (case first (body opponent) of
        None \<Rightarrow> None
      | Some opponent_head \<Rightarrow>
          let opponent_body = body opponent;
              first_step_positions =
                filter (\<lambda>pos1. is_in_bounds pos1 board_width board_height
                                \<and> \<not> is_collision_with_body pos1 (drop_last opponent_body))
                  (map (get_next_position opponent_head) possible_moves);
              second_step_positions =
                concat (map (\<lambda>pos1.
                          filter (\<lambda>pos2. is_in_bounds pos2 board_width board_height
                                    \<and> \<not> is_collision_with_body pos2
                                          (pos1 # take (length opponent_body - 2) opponent_body))
                            (map (get_next_position pos1) possible_moves))
                        first_step_positions)
          in Some (first_step_positions @ (if depth \<ge> 2 then second_step_positions else [])))"

definition head_to_head_step ::
  "position \<Rightarrow> int \<Rightarrow> int \<Rightarrow> int \<Rightarrow> mask \<Rightarrow> snake \<Rightarrow> scores \<Rightarrow> scores option" where
  "head_to_head_step my_head my_length board_width board_height safe_mask opponent move_scores =
     (case first (body opponent) of
        None \<Rightarrow> None
      | Some opponent_head \<Rightarrow>
          let opponent_length = int (length (body opponent))
          in if opponent_length \<ge> my_length
             then
               (case predict_opponent_next_moves opponent board_width board_height 2 of
                  None \<Rightarrow> None
                | Some predicted_positions \<Rightarrow>
                    Some (fold (\<lambda>m sc.
                                  if \<not> safe_mask m then sc
                                  else
                                    let next_pos = get_next_position my_head m
                                    in if list_ex (positions_equal next_pos) predicted_positions
                                       then
                                         let distance = manhattan_distance next_pos opponent_head;
                                             penalty =
                                               (if distance \<le> 1
                                                then 400 + (opponent_length - my_length) * 50
                                                else 200 + (opponent_length - my_length) * 30)
                                         in sc(m := sc m - rat_of_int penalty)
                                       else sc)
                            possible_moves move_scores))
             else Some move_scores)"

definition evaluate_head_to_head_defense_enhanced ::
  "position \<Rightarrow> int \<Rightarrow> snake list \<Rightarrow> int \<Rightarrow> int \<Rightarrow> scores \<Rightarrow> mask \<Rightarrow> scores option" where
  "evaluate_head_to_head_defense_enhanced my_head my_length opponents board_width board_height
       move_scores safe_mask =
     for_each (head_to_head_step my_head my_length board_width board_height safe_mask)
       opponents move_scores"

section \<open>Position preference\<close>

definition evaluate_position_preference ::
  "position \<Rightarrow> int \<Rightarrow> int \<Rightarrow> scores \<Rightarrow> mask \<Rightarrow> scores" where
  "evaluate_position_preference my_head board_width board_height move_scores safe_mask =
     (let center_x = rat_of_int board_width / 2;
          center_y = rat_of_int board_height / 2
      in fold (\<lambda>m sc.
                 if \<not> safe_mask m then sc
                 else
                   let next_pos = get_next_position my_head m;
                       distance_to_center =
                         \<bar>rat_of_int (pos_x next_pos) - center_x\<bar>
                         + \<bar>rat_of_int (pos_y next_pos) - center_y\<bar>
                   in sc(m := sc m + 5 / (distance_to_center + 1)))
           possible_moves move_scores)"

section \<open>Decision\<close>

text \<open>The last lines of \<^verbatim>\<open>move\<close>: the candidates, the fallback and the arg-max.\<close>

definition safe_moves_of :: "mask \<Rightarrow> scores \<Rightarrow> Move list" where
  "safe_moves_of safe_mask move_scores =
     filter (\<lambda>m. safe_mask m \<and> move_scores m > - 9000) possible_moves"

definition select_move :: "mask \<Rightarrow> scores \<Rightarrow> Move option" where
  "select_move safe_mask move_scores =
     (let safe_moves = safe_moves_of safe_mask move_scores
      in if safe_moves = [] then py_max move_scores possible_moves
         else py_max move_scores safe_moves)"

text \<open>
  The scoring passes of \<^verbatim>\<open>move\<close> in their order, giving the final score table and the
  mask of the safety filter. \<open>None\<close> is an IndexError: the body of \<^verbatim>\<open>you\<close> or of
  an opponent is empty where its head is read. The calls of \<^verbatim>\<open>print\<close> write a log
  line and take no part in the result; they are left out.
\<close>

definition final_scores :: "game_state \<Rightarrow> (scores \<times> mask) option" where
  "final_scores gs =
     (case first (body (you gs)) of
        None \<Rightarrow> None
      | Some my_head \<Rightarrow>
          let my_body = body (you gs);
              my_length = int (length my_body);
              my_health = health (you gs);
              board_width = width (board gs);
              board_height = height (board gs);
              fd = food (board gs);
              opponents = opponents_of gs;
              st = evaluate_basic_safety my_head my_body opponents board_width board_height
                     (\<lambda>m. 0);
              safe_moves_mask = snd st;
              sc1 = evaluate_space_availability my_head my_length (fst st) safe_moves_mask gs;
              dynamic_threshold = calculate_dynamic_aggressive_threshold gs;
              is_aggressive = (my_length \<ge> dynamic_threshold \<and> my_health > LOW_HEALTH_THRESHOLD);
              is_critical = (my_health < CRITICAL_HEALTH_THRESHOLD);
              need_food = (my_health < LOW_HEALTH_THRESHOLD)
          in do {
               sc2 \<leftarrow> (if is_critical \<and> opponents \<noteq> []
                       then evaluate_emergency_strategy_enhanced my_head my_length my_health fd
                              opponents sc1 safe_moves_mask gs
                       else if fd \<noteq> [] \<and> (need_food \<or> \<not> is_aggressive)
                       then evaluate_food_seeking_smart my_head fd sc1 safe_moves_mask
                              is_critical need_food gs
                       else Some sc1);
               sc3 \<leftarrow> (if is_aggressive \<and> opponents \<noteq> []
                       then evaluate_aggressive_strategy my_head my_length opponents sc2
                              safe_moves_mask
                       else Some sc2);
               sc4 \<leftarrow> (if opponents \<noteq> []
                       then evaluate_head_to_head_defense_enhanced my_head my_length opponents
                              board_width board_height sc3 safe_moves_mask
                       else Some sc3);
               Some (evaluate_position_preference my_head board_width board_height sc4
                       safe_moves_mask, safe_moves_mask)
             })"

definition move :: "game_state \<Rightarrow> Move option" where
  "move gs =
     (case final_scores gs of
        None \<Rightarrow> None
      | Some (move_scores, safe_moves_mask) \<Rightarrow> select_move safe_moves_mask move_scores)"

section \<open>Notions of the specification\<close>

text \<open>
  The mask and the accumulated score of a move at the end of the scoring passes of
  \<^verbatim>\<open>move\<close>, when no subscript raised.
\<close>

definition move_mask :: "game_state \<Rightarrow> Move \<Rightarrow> bool option" where
  "move_mask gs m = map_option (\<lambda>st. snd st m) (final_scores gs)"

definition move_score :: "game_state \<Rightarrow> Move \<Rightarrow> rat option" where
  "move_score gs m = map_option (\<lambda>st. fst st m) (final_scores gs)"

text \<open>
  The four conditions of the safety filter as the specification lists them: the
  resulting coordinate is the neck, or lies outside the board, or is a segment of the
  own body other than the last, or is a segment of an opponent's body other than that
  opponent's last.
\<close>

definition unsafe_by_spec ::
  "position \<Rightarrow> position list \<Rightarrow> snake list \<Rightarrow> int \<Rightarrow> int \<Rightarrow> Move \<Rightarrow> bool" where
  "unsafe_by_spec my_head my_body opponents w h m \<longleftrightarrow>
     (let c = get_next_position my_head m
      in c = my_body ! 1
         \<or> \<not> (0 \<le> pos_x c \<and> pos_x c < w \<and> 0 \<le> pos_y c \<and> pos_y c < h)
         \<or> c \<in> set (butlast my_body)
         \<or> (\<exists>opp \<in> set opponents. c \<in> set (butlast (body opp))))"

text \<open>
  The arg-max of the specification: a member of the set with the greatest score, and
  among the members with that score the first in the enumeration up, down, left, right.
\<close>

fun move_index :: "Move \<Rightarrow> nat" where
  "move_index Up = 0"
| "move_index Down = 1"
| "move_index Left = 2"
| "move_index Right = 3"

definition first_argmax :: "scores \<Rightarrow> Move set \<Rightarrow> Move \<Rightarrow> bool" where
  "first_argmax sc S r \<longleftrightarrow>
     r \<in> S \<and> (\<forall>m \<in> S. sc m \<le> sc r \<and> (sc m = sc r \<longrightarrow> move_index r \<le> move_index m))"

definition candidates :: "mask \<Rightarrow> scores \<Rightarrow> Move set" where
  "candidates mk sc = {m. mk m \<and> sc m > - 9000}"

text \<open>
  The arbitration of the emergency strategy as the specification words it, and the
  projection of the chosen option onto the moves with a true mask: the specification
  divides the score of the chosen option by the distance plus one.
\<close>

datatype choice = Hunt hunt_option | Feed food_option | Neither

definition arbitrate_by_spec :: "food_option option \<Rightarrow> hunt_option option \<Rightarrow> choice" where
  "arbitrate_by_spec fo ho =
     (case (fo, ho) of
        (Some f, Some h) \<Rightarrow>
          if ho_score h > 2 * fo_score f \<and> ho_path_safe h \<and> ho_third_party_risk h < 100
          then Hunt h else Feed f
      | (Some f, None) \<Rightarrow> Feed f
      | (None, Some h) \<Rightarrow> Hunt h
      | (None, None) \<Rightarrow> Neither)"

definition projection_by_spec :: "position \<Rightarrow> choice \<Rightarrow> scores \<Rightarrow> mask \<Rightarrow> Move \<Rightarrow> rat" where
  "projection_by_spec my_head c sc mk m =
     (if mk m
      then (case c of
              Hunt h \<Rightarrow>
                sc m + ho_score h
                  / rat_of_int (manhattan_distance (get_next_position my_head m) (ho_target h) + 1)
            | Feed f \<Rightarrow>
                sc m + fo_score f
                  / rat_of_int (manhattan_distance (get_next_position my_head m) (fo_target f) + 1)
            | Neither \<Rightarrow> sc m)
      else sc m)"

text \<open>The projection with the fixed weight 500 for the food option.\<close>

definition projection_weighted :: "position \<Rightarrow> choice \<Rightarrow> scores \<Rightarrow> mask \<Rightarrow> Move \<Rightarrow> rat" where
  "projection_weighted my_head c sc mk m =
     (if mk m
      then (case c of
              Hunt h \<Rightarrow>
                sc m + ho_score h
                  / rat_of_int (manhattan_distance (get_next_position my_head m) (ho_target h) + 1)
            | Feed f \<Rightarrow>
                sc m + 500
                  / rat_of_int (manhattan_distance (get_next_position my_head m) (fo_target f) + 1)
            | Neither \<Rightarrow> sc m)
      else sc m)"

text \<open>
  The cells a traversal may enter are inside the board and not an obstacle. The
  reachable cells are the start cell and every such cell next to a reachable one.
\<close>

definition free_cells :: "(int \<times> int) set \<Rightarrow> int \<Rightarrow> int \<Rightarrow> (int \<times> int) set" where
  "free_cells obs w h = {(a, b). (a, b) \<notin> obs \<and> 0 \<le> a \<and> a < w \<and> 0 \<le> b \<and> b < h}"

definition neighbours :: "int \<times> int \<Rightarrow> (int \<times> int) set" where
  "neighbours t = {(fst t, snd t + 1), (fst t, snd t - 1), (fst t - 1, snd t), (fst t + 1, snd t)}"

inductive_set reachable_cells :: "(int \<times> int) set \<Rightarrow> int \<Rightarrow> int \<Rightarrow> int \<times> int \<Rightarrow> (int \<times> int) set"
  for obs :: "(int \<times> int) set" and w :: int and h :: int and s0 :: "int \<times> int" where
  start: "s0 \<in> reachable_cells obs w h s0"
| step: "t \<in> reachable_cells obs w h s0 \<Longrightarrow> n \<in> neighbours t \<Longrightarrow> n \<in> free_cells obs w h
         \<Longrightarrow> n \<in> reachable_cells obs w h s0"





section \<open>Example snapshots\<close>

text \<open>
  Three snapshots on an 11 by 11 board with the controlled snake of length 3 and two
  opponents. From the first to the second the smaller opponent grows from 4 to 5
  segments; in the third the larger opponent has 7 segments instead of 8.
\<close>

definition population_a :: game_state where
  "population_a =
     \<lparr>turn = 7,
      board = \<lparr>width = 11, height = 11, food = [],
        snakes =
          [\<lparr>snake_id = ''me'', body = [\<lparr>pos_x = 5, pos_y = 5\<rparr>, \<lparr>pos_x = 4, pos_y = 5\<rparr>, \<lparr>pos_x = 3, pos_y = 5\<rparr>], health = 90\<rparr>,
           \<lparr>snake_id = ''big'', body = [\<lparr>pos_x = 0, pos_y = 0\<rparr>, \<lparr>pos_x = 1, pos_y = 0\<rparr>, \<lparr>pos_x = 2, pos_y = 0\<rparr>, \<lparr>pos_x = 3, pos_y = 0\<rparr>,
                \<lparr>pos_x = 4, pos_y = 0\<rparr>, \<lparr>pos_x = 5, pos_y = 0\<rparr>, \<lparr>pos_x = 6, pos_y = 0\<rparr>, \<lparr>pos_x = 7, pos_y = 0\<rparr>], health = 90\<rparr>,
           \<lparr>snake_id = ''small'', body = [\<lparr>pos_x = 0, pos_y = 10\<rparr>, \<lparr>pos_x = 1, pos_y = 10\<rparr>, \<lparr>pos_x = 2, pos_y = 10\<rparr>, \<lparr>pos_x = 3, pos_y = 10\<rparr>], health = 90\<rparr>]\<rparr>,
      you = \<lparr>snake_id = ''me'', body = [\<lparr>pos_x = 5, pos_y = 5\<rparr>, \<lparr>pos_x = 4, pos_y = 5\<rparr>, \<lparr>pos_x = 3, pos_y = 5\<rparr>], health = 90\<rparr>\<rparr>"

definition population_b :: game_state where
  "population_b =
     \<lparr>turn = 8,
      board = \<lparr>width = 11, height = 11, food = [],
        snakes =
          [\<lparr>snake_id = ''me'', body = [\<lparr>pos_x = 5, pos_y = 5\<rparr>, \<lparr>pos_x = 4, pos_y = 5\<rparr>, \<lparr>pos_x = 3, pos_y = 5\<rparr>], health = 90\<rparr>,
           \<lparr>snake_id = ''big'', body = [\<lparr>pos_x = 0, pos_y = 0\<rparr>, \<lparr>pos_x = 1, pos_y = 0\<rparr>, \<lparr>pos_x = 2, pos_y = 0\<rparr>, \<lparr>pos_x = 3, pos_y = 0\<rparr>,
                \<lparr>pos_x = 4, pos_y = 0\<rparr>, \<lparr>pos_x = 5, pos_y = 0\<rparr>, \<lparr>pos_x = 6, pos_y = 0\<rparr>, \<lparr>pos_x = 7, pos_y = 0\<rparr>], health = 90\<rparr>,
           \<lparr>snake_id = ''small'', body = [\<lparr>pos_x = 0, pos_y = 10\<rparr>, \<lparr>pos_x = 1, pos_y = 10\<rparr>, \<lparr>pos_x = 2, pos_y = 10\<rparr>, \<lparr>pos_x = 3, pos_y = 10\<rparr>, \<lparr>pos_x = 4, pos_y = 10\<rparr>], health = 90\<rparr>]\<rparr>,
      you = \<lparr>snake_id = ''me'', body = [\<lparr>pos_x = 5, pos_y = 5\<rparr>, \<lparr>pos_x = 4, pos_y = 5\<rparr>, \<lparr>pos_x = 3, pos_y = 5\<rparr>], health = 90\<rparr>\<rparr>"

definition population_c :: game_state where
  "population_c =
     \<lparr>turn = 9,
      board = \<lparr>width = 11, height = 11, food = [],
        snakes =
          [\<lparr>snake_id = ''me'', body = [\<lparr>pos_x = 5, pos_y = 5\<rparr>, \<lparr>pos_x = 4, pos_y = 5\<rparr>, \<lparr>pos_x = 3, pos_y = 5\<rparr>], health = 90\<rparr>,
           \<lparr>snake_id = ''big'', body = [\<lparr>pos_x = 0, pos_y = 0\<rparr>, \<lparr>pos_x = 1, pos_y = 0\<rparr>, \<lparr>pos_x = 2, pos_y = 0\<rparr>, \<lparr>pos_x = 3, pos_y = 0\<rparr>,
                \<lparr>pos_x = 4, pos_y = 0\<rparr>, \<lparr>pos_x = 5, pos_y = 0\<rparr>, \<lparr>pos_x = 6, pos_y = 0\<rparr>], health = 90\<rparr>,
           \<lparr>snake_id = ''small'', body = [\<lparr>pos_x = 0, pos_y = 10\<rparr>, \<lparr>pos_x = 1, pos_y = 10\<rparr>, \<lparr>pos_x = 2, pos_y = 10\<rparr>, \<lparr>pos_x = 3, pos_y = 10\<rparr>], health = 90\<rparr>]\<rparr>,
      you = \<lparr>snake_id = ''me'', body = [\<lparr>pos_x = 5, pos_y = 5\<rparr>, \<lparr>pos_x = 4, pos_y = 5\<rparr>, \<lparr>pos_x = 3, pos_y = 5\<rparr>], health = 90\<rparr>\<rparr>"

text \<open>
  Two more snapshots with the same controlled snake: one with four opponents of 3
  segments each, one with two opponents of 4 segments each.
\<close>

definition population_d :: game_state where
  "population_d =
     \<lparr>turn = 10,
      board = \<lparr>width = 11, height = 11, food = [],
        snakes =
          [\<lparr>snake_id = ''me'', body = [\<lparr>pos_x = 5, pos_y = 5\<rparr>, \<lparr>pos_x = 4, pos_y = 5\<rparr>, \<lparr>pos_x = 3, pos_y = 5\<rparr>], health = 90\<rparr>,
           \<lparr>snake_id = ''north'', body = [\<lparr>pos_x = 0, pos_y = 10\<rparr>, \<lparr>pos_x = 1, pos_y = 10\<rparr>, \<lparr>pos_x = 2, pos_y = 10\<rparr>], health = 90\<rparr>,
           \<lparr>snake_id = ''south'', body = [\<lparr>pos_x = 0, pos_y = 0\<rparr>, \<lparr>pos_x = 1, pos_y = 0\<rparr>, \<lparr>pos_x = 2, pos_y = 0\<rparr>], health = 90\<rparr>,
           \<lparr>snake_id = ''east'', body = [\<lparr>pos_x = 10, pos_y = 0\<rparr>, \<lparr>pos_x = 10, pos_y = 1\<rparr>, \<lparr>pos_x = 10, pos_y = 2\<rparr>], health = 90\<rparr>,
           \<lparr>snake_id = ''west'', body = [\<lparr>pos_x = 10, pos_y = 10\<rparr>, \<lparr>pos_x = 10, pos_y = 9\<rparr>, \<lparr>pos_x = 10, pos_y = 8\<rparr>], health = 90\<rparr>]\<rparr>,
      you = \<lparr>snake_id = ''me'', body = [\<lparr>pos_x = 5, pos_y = 5\<rparr>, \<lparr>pos_x = 4, pos_y = 5\<rparr>, \<lparr>pos_x = 3, pos_y = 5\<rparr>], health = 90\<rparr>\<rparr>"

definition population_e :: game_state where
  "population_e =
     \<lparr>turn = 11,
      board = \<lparr>width = 11, height = 11, food = [],
        snakes =
          [\<lparr>snake_id = ''me'', body = [\<lparr>pos_x = 5, pos_y = 5\<rparr>, \<lparr>pos_x = 4, pos_y = 5\<rparr>, \<lparr>pos_x = 3, pos_y = 5\<rparr>], health = 90\<rparr>,
           \<lparr>snake_id = ''north'', body = [\<lparr>pos_x = 0, pos_y = 10\<rparr>, \<lparr>pos_x = 1, pos_y = 10\<rparr>, \<lparr>pos_x = 2, pos_y = 10\<rparr>, \<lparr>pos_x = 3, pos_y = 10\<rparr>], health = 90\<rparr>,
           \<lparr>snake_id = ''south'', body = [\<lparr>pos_x = 0, pos_y = 0\<rparr>, \<lparr>pos_x = 1, pos_y = 0\<rparr>, \<lparr>pos_x = 2, pos_y = 0\<rparr>, \<lparr>pos_x = 3, pos_y = 0\<rparr>], health = 90\<rparr>]\<rparr>,
      you = \<lparr>snake_id = ''me'', body = [\<lparr>pos_x = 5, pos_y = 5\<rparr>, \<lparr>pos_x = 4, pos_y = 5\<rparr>, \<lparr>pos_x = 3, pos_y = 5\<rparr>], health = 90\<rparr>\<rparr>"

text \<open>
  A score table and a mask with a tie between up and down, left being masked.
\<close>

definition tie_scores :: scores where
  "tie_scores = (\<lambda>m. 0)(Up := 5, Down := 5, Left := - 10000, Right := 3)"

definition tie_mask :: mask where
  "tie_mask = (\<lambda>m. True)(Left := False)"

text \<open>
  A snapshot on a 19 by 19 board with no food and no opponent. The controlled snake
  has 198 segments; its head is in the corner (0, 0) and its neck is above the head, at
  (0, 1). The cell to the right of the head, (1, 0), is free, and its other neighbours
  (1, 1) and (2, 0) are segments of the body.
\<close>

definition pocket_snake :: snake where
  "pocket_snake =
    \<lparr>snake_id = ''me'',
     body = map (\<lambda>(a, b). \<lparr>pos_x = a, pos_y = b\<rparr>)
       [(0, 0), (0, 1), (1, 1), (2, 1), (2, 0), (3, 0), (4, 0), (5, 0), (6, 0), (7, 0), (8, 0),
        (9, 0), (10, 0), (11, 0), (12, 0), (13, 0), (14, 0), (15, 0), (16, 0), (17, 0),
        (18, 0), (18, 1), (17, 1), (16, 1), (15, 1), (14, 1), (13, 1), (12, 1), (11, 1),
        (10, 1), (9, 1), (8, 1), (7, 1), (6, 1), (5, 1), (4, 1), (3, 1), (3, 2), (2, 2),
        (1, 2), (0, 2), (0, 3), (1, 3), (2, 3), (3, 3), (4, 3), (5, 3), (6, 3), (7, 3), (8, 3),
        (9, 3), (10, 3), (11, 3), (12, 3), (13, 3), (14, 3), (15, 3), (16, 3), (17, 3),
        (18, 3), (18, 4), (17, 4), (16, 4), (15, 4), (14, 4), (13, 4), (12, 4), (11, 4),
        (10, 4), (9, 4), (8, 4), (7, 4), (6, 4), (5, 4), (4, 4), (3, 4), (2, 4), (1, 4),
        (0, 4), (0, 5), (1, 5), (2, 5), (3, 5), (4, 5), (5, 5), (6, 5), (7, 5), (8, 5), (9, 5),
        (10, 5), (11, 5), (12, 5), (13, 5), (14, 5), (15, 5), (16, 5), (17, 5), (18, 5),
        (18, 6), (17, 6), (16, 6), (15, 6), (14, 6), (13, 6), (12, 6), (11, 6), (10, 6),
        (9, 6), (8, 6), (7, 6), (6, 6), (5, 6), (4, 6), (3, 6), (2, 6), (1, 6), (0, 6), (0, 7),
        (1, 7), (2, 7), (3, 7), (4, 7), (5, 7), (6, 7), (7, 7), (8, 7), (9, 7), (10, 7),
        (11, 7), (12, 7), (13, 7), (14, 7), (15, 7), (16, 7), (17, 7), (18, 7), (18, 8),
        (17, 8), (16, 8), (15, 8), (14, 8), (13, 8), (12, 8), (11, 8), (10, 8), (9, 8), (8, 8),
        (7, 8), (6, 8), (5, 8), (4, 8), (3, 8), (2, 8), (1, 8), (0, 8), (0, 9), (1, 9), (2, 9),
        (3, 9), (4, 9), (5, 9), (6, 9), (7, 9), (8, 9), (9, 9), (10, 9), (11, 9), (12, 9),
        (13, 9), (14, 9), (15, 9), (16, 9), (17, 9), (18, 9), (18, 10), (17, 10), (16, 10),
        (15, 10), (14, 10), (13, 10), (12, 10), (11, 10), (10, 10), (9, 10), (8, 10), (7, 10),
        (6, 10), (5, 10), (4, 10), (3, 10), (2, 10), (1, 10), (0, 10), (0, 11), (1, 11),
        (2, 11), (3, 11), (4, 11)],
     health = 60\<rparr>"

definition pocket_state :: game_state where
  "pocket_state =
     \<lparr>turn = 300,
      board = \<lparr>width = 19, height = 19, food = [], snakes = [pocket_snake]\<rparr>,
      you = pocket_snake\<rparr>"

text \<open>
  Two snapshots in emergency mode on an 11 by 11 board. In the first the controlled
  snake has 3 segments and health 10, the only opponent has 8 segments, and one food
  lies two cells to the right of the head. In the second the controlled snake has 5
  segments and health 14, an opponent of 4 segments has its head two cells to the right
  of the head, and the only food is 13 cells away.
\<close>

definition hungry_snake :: snake where
  "hungry_snake =
     \<lparr>snake_id = ''me'',
      body = [\<lparr>pos_x = 5, pos_y = 5\<rparr>, \<lparr>pos_x = 4, pos_y = 5\<rparr>, \<lparr>pos_x = 3, pos_y = 5\<rparr>],
      health = 10\<rparr>"

definition hungry_state :: game_state where
  "hungry_state =
     \<lparr>turn = 40,
      board = \<lparr>width = 11, height = 11, food = [\<lparr>pos_x = 7, pos_y = 5\<rparr>],
        snakes =
          [hungry_snake,
           \<lparr>snake_id = ''big'', body = [\<lparr>pos_x = 0, pos_y = 0\<rparr>, \<lparr>pos_x = 1, pos_y = 0\<rparr>, \<lparr>pos_x = 2, pos_y = 0\<rparr>, \<lparr>pos_x = 3, pos_y = 0\<rparr>,
                \<lparr>pos_x = 4, pos_y = 0\<rparr>, \<lparr>pos_x = 5, pos_y = 0\<rparr>, \<lparr>pos_x = 6, pos_y = 0\<rparr>, \<lparr>pos_x = 7, pos_y = 0\<rparr>], health = 90\<rparr>]\<rparr>,
      you = hungry_snake\<rparr>"

definition hunter_snake :: snake where
  "hunter_snake =
     \<lparr>snake_id = ''me'',
      body = [\<lparr>pos_x = 1, pos_y = 1\<rparr>, \<lparr>pos_x = 1, pos_y = 2\<rparr>, \<lparr>pos_x = 1, pos_y = 3\<rparr>,
              \<lparr>pos_x = 1, pos_y = 4\<rparr>, \<lparr>pos_x = 1, pos_y = 5\<rparr>],
      health = 14\<rparr>"

definition hunting_state :: game_state where
  "hunting_state =
     \<lparr>turn = 41,
      board = \<lparr>width = 11, height = 11, food = [\<lparr>pos_x = 10, pos_y = 5\<rparr>],
        snakes =
          [hunter_snake,
           \<lparr>snake_id = ''prey'', body = [\<lparr>pos_x = 3, pos_y = 1\<rparr>, \<lparr>pos_x = 4, pos_y = 1\<rparr>, \<lparr>pos_x = 5, pos_y = 1\<rparr>,
                \<lparr>pos_x = 6, pos_y = 1\<rparr>], health = 90\<rparr>]\<rparr>,
      you = hunter_snake\<rparr>"

text \<open>The masks the safety filter computes on these two snapshots.\<close>

definition hungry_mask :: mask where
  "hungry_mask = (\<lambda>m. True)(Left := False)"

definition hunting_mask :: mask where
  "hunting_mask = (\<lambda>m. True)(Up := False)"

section \<open>The aggression threshold\<close>

lemma threshold_rules_mono:
  assumes "na \<le> nb" and "na = 0 \<or> mxa \<le> l + 4" and "avga \<le> avgb"
  shows "threshold_rules na avga mxa l \<le> threshold_rules nb avgb mxb l"
  using assms by (auto simp: threshold_rules_def)

lemma threshold_unfold:
  "calculate_dynamic_aggressive_threshold gs =
     threshold_rules (length (opponents_of gs))
       (rat_of_int (sum_list (map (\<lambda>s. int (length (body s))) (opponents_of gs)))
          / rat_of_int (int (length (opponents_of gs))))
       (Max (set (map (\<lambda>s. int (length (body s))) (opponents_of gs))))
       (int (length (body (you gs))))"
  by (simp add: calculate_dynamic_aggressive_threshold_def threshold_rules_def Let_def)

text \<open>
  C7: the threshold computed by the code is the rule table of the specification, read
  in its priority order, at the number of opponents, their average and maximum length
  and the length of the controlled snake.
\<close>

theorem threshold_follows_rule_table:
  "calculate_dynamic_aggressive_threshold gs =
     threshold_rules (length (opponents_of gs)) (average_opponent_length gs)
       (Max (set (opponent_lengths gs))) (self_length gs)"
  by (simp add: calculate_dynamic_aggressive_threshold_def threshold_rules_def
      average_opponent_length_def opponent_lengths_def self_length_def Let_def)

theorem threshold_follows_rule_table_witness:
  "calculate_dynamic_aggressive_threshold population_a = 11
   \<and> threshold_rules (length (opponents_of population_a)) (average_opponent_length population_a)
       (Max (set (opponent_lengths population_a))) (self_length population_a) = 11"
  using threshold_follows_rule_table [of population_a]
  by (simp add: threshold_rules_def population_a_def opponents_of_def
      average_opponent_length_def opponent_lengths_def self_length_def)

text \<open>
  C8 as stated fails: when the smaller opponent grows from 4 to 5 segments the average
  rises from 6 to 13/2, and the threshold falls from 11 (the rule on the maximum) to 10
  (the rule on the average, which comes first).
\<close>

theorem threshold_monotonicity_counterexample:
  "self_length population_a = self_length population_b
   \<and> average_opponent_length population_a \<le> average_opponent_length population_b
   \<and> \<not> calculate_dynamic_aggressive_threshold population_a
         \<le> calculate_dynamic_aggressive_threshold population_b"
  by (simp add: calculate_dynamic_aggressive_threshold_def population_a_def population_b_def
      opponents_of_def average_opponent_length_def opponent_lengths_def self_length_def Let_def)

text \<open>
  The number of opponents matters as well: four opponents of 3 segments give the
  threshold 9, and two opponents of 4 segments, with a larger average, give 7.
\<close>

lemma threshold_falls_with_fewer_opponents:
  "self_length population_d = self_length population_e
   \<and> average_opponent_length population_d \<le> average_opponent_length population_e
   \<and> length (opponents_of population_e) < length (opponents_of population_d)
   \<and> calculate_dynamic_aggressive_threshold population_d = 9
   \<and> calculate_dynamic_aggressive_threshold population_e = 7"
  by (simp add: calculate_dynamic_aggressive_threshold_def population_d_def population_e_def
      opponents_of_def average_opponent_length_def opponent_lengths_def self_length_def Let_def)

text \<open>
  C8 amended: for two populations with the same controlled snake length, where the
  first has no more opponents than the second and, unless it is empty, no opponent
  longer than the controlled snake by more than 4, a larger or equal average opponent
  length gives a larger or equal threshold.
\<close>

theorem threshold_monotone_bounded_max:
  assumes "self_length a = self_length b"
    and "length (opponents_of a) \<le> length (opponents_of b)"
    and "opponents_of a = [] \<or> Max (set (opponent_lengths a)) \<le> self_length a + 4"
    and "average_opponent_length a \<le> average_opponent_length b"
  shows "calculate_dynamic_aggressive_threshold a \<le> calculate_dynamic_aggressive_threshold b"
proof -
  have m: "length (opponents_of a) = 0
           \<or> Max (set (map (\<lambda>s. int (length (body s))) (opponents_of a)))
               \<le> int (length (body (you b))) + 4"
    using assms(1,3) by (auto simp: opponent_lengths_def self_length_def)
  have v: "rat_of_int (sum_list (map (\<lambda>s. int (length (body s))) (opponents_of a)))
             / rat_of_int (int (length (opponents_of a)))
           \<le> rat_of_int (sum_list (map (\<lambda>s. int (length (body s))) (opponents_of b)))
             / rat_of_int (int (length (opponents_of b)))"
    using assms(4) by (simp add: average_opponent_length_def opponent_lengths_def)
  have l: "int (length (body (you a))) = int (length (body (you b)))"
    using assms(1) by (simp add: self_length_def)
  show ?thesis
    unfolding threshold_unfold l
    by (rule threshold_rules_mono [OF assms(2) m v])
qed

theorem threshold_monotone_bounded_max_witness:
  "self_length population_c = self_length population_b
   \<and> length (opponents_of population_c) \<le> length (opponents_of population_b)
   \<and> Max (set (opponent_lengths population_c)) \<le> self_length population_c + 4
   \<and> average_opponent_length population_c \<le> average_opponent_length population_b
   \<and> calculate_dynamic_aggressive_threshold population_c = 7
   \<and> calculate_dynamic_aggressive_threshold population_b = 10"
proof -
  have h1: "self_length population_c = self_length population_b"
    by (simp add: self_length_def population_c_def population_b_def)
  have h2: "length (opponents_of population_c) \<le> length (opponents_of population_b)"
    by (simp add: opponents_of_def population_c_def population_b_def)
  have h4: "Max (set (opponent_lengths population_c)) \<le> self_length population_c + 4"
    by (simp add: opponent_lengths_def opponents_of_def self_length_def population_c_def)
  then have h3: "opponents_of population_c = []
                 \<or> Max (set (opponent_lengths population_c)) \<le> self_length population_c + 4"
    by simp
  have h5: "average_opponent_length population_c \<le> average_opponent_length population_b"
    by (simp add: average_opponent_length_def opponent_lengths_def opponents_of_def
        population_c_def population_b_def)
  have c: "calculate_dynamic_aggressive_threshold population_c = 7"
    by (simp add: calculate_dynamic_aggressive_threshold_def opponents_of_def population_c_def Let_def)
  have b: "calculate_dynamic_aggressive_threshold population_b = 10"
    by (simp add: calculate_dynamic_aggressive_threshold_def opponents_of_def population_b_def Let_def)
  from threshold_monotone_bounded_max [OF h1 h2 h3 h5] h1 h2 h4 h5 c b
  show ?thesis by simp
qed

section \<open>The safety filter\<close>

lemma position_eq_iff: "(p::position) = q \<longleftrightarrow> pos_x p = pos_x q \<and> pos_y p = pos_y q"
  by auto

lemma drop_last_butlast: "drop_last xs = butlast xs"
  by (simp add: drop_last_def butlast_conv_take)

lemma collision_with_body_iff: "is_collision_with_body p bd \<longleftrightarrow> p \<in> set bd"
  by (simp add: is_collision_with_body_def list_ex_iff position_eq_iff [symmetric])

lemma collision_with_opponents_iff:
  "is_collision_with_opponents p opps True \<longleftrightarrow> (\<exists>opp \<in> set opps. p \<in> set (butlast (body opp)))"
  by (induction opps) (auto simp: collision_with_body_iff drop_last_butlast)

lemma basic_safety_step_other:
  "m' \<noteq> m \<Longrightarrow> fst (basic_safety_step hp bd opps w h m st) m' = fst st m'
     \<and> snd (basic_safety_step hp bd opps w h m st) m' = snd st m'"
  by (simp add: basic_safety_step_def Let_def)

lemma basic_safety_step_self:
  "length bd \<ge> 2 \<Longrightarrow>
   fst (basic_safety_step hp bd opps w h m st) m
     = (if unsafe_by_spec hp bd opps w h m then fst st m - 10000 else fst st m)
   \<and> snd (basic_safety_step hp bd opps w h m st) m
     = (if unsafe_by_spec hp bd opps w h m then False else snd st m)"
  by (auto simp: basic_safety_step_def Let_def unsafe_by_spec_def my_neck_of_def
      is_in_bounds_def collision_with_body_iff collision_with_opponents_iff drop_last_butlast)

lemma evaluate_basic_safety_at:
  assumes "length bd \<ge> 2"
  shows "fst (evaluate_basic_safety hp bd opps w h sc) m
           = (if unsafe_by_spec hp bd opps w h m then sc m - 10000 else sc m)
         \<and> snd (evaluate_basic_safety hp bd opps w h sc) m
           = (\<not> unsafe_by_spec hp bd opps w h m)"
  using assms
  by (cases m) (simp_all add: evaluate_basic_safety_def possible_moves_def
      basic_safety_step_other basic_safety_step_self)

lemma basic_safety_step_cases:
  "(snd (basic_safety_step hp bd opps w h m st) m = snd st m
      \<and> fst (basic_safety_step hp bd opps w h m st) m = fst st m)
   \<or> (snd (basic_safety_step hp bd opps w h m st) m = False
      \<and> fst (basic_safety_step hp bd opps w h m st) m = fst st m - 10000)"
  by (simp add: basic_safety_step_def Let_def)

lemma evaluate_basic_safety_cases:
  "(snd (evaluate_basic_safety hp bd opps w h sc) m = True
      \<and> fst (evaluate_basic_safety hp bd opps w h sc) m = sc m)
   \<or> (snd (evaluate_basic_safety hp bd opps w h sc) m = False
      \<and> fst (evaluate_basic_safety hp bd opps w h sc) m = sc m - 10000)"
proof (cases m)
  case Up
  then show ?thesis
    using basic_safety_step_cases [of hp bd opps w h Up "(sc, \<lambda>m. True)"]
    by (simp add: evaluate_basic_safety_def possible_moves_def basic_safety_step_other)
next
  case Down
  then show ?thesis
    using basic_safety_step_cases [of hp bd opps w h Down
        "basic_safety_step hp bd opps w h Up (sc, \<lambda>m. True)"]
    by (simp add: evaluate_basic_safety_def possible_moves_def basic_safety_step_other)
next
  case Left
  then show ?thesis
    using basic_safety_step_cases [of hp bd opps w h Left
        "basic_safety_step hp bd opps w h Down
           (basic_safety_step hp bd opps w h Up (sc, \<lambda>m. True))"]
    by (simp add: evaluate_basic_safety_def possible_moves_def basic_safety_step_other)
next
  case Right
  then show ?thesis
    using basic_safety_step_cases [of hp bd opps w h Right
        "basic_safety_step hp bd opps w h Left
           (basic_safety_step hp bd opps w h Down
              (basic_safety_step hp bd opps w h Up (sc, \<lambda>m. True)))"]
    by (simp add: evaluate_basic_safety_def possible_moves_def basic_safety_step_other)
qed

text \<open>
  C3: for a body of at least two segments, the safety filter clears the mask of a move
  and subtracts 10000 from its score exactly when the resulting coordinate is the neck,
  lies outside the board, is a segment of the own body other than the last, or is a
  segment of an opponent's body other than that opponent's last; otherwise the mask
  stays true and the score is unchanged.
\<close>

theorem safety_filter_marks_exactly:
  assumes "length my_body \<ge> 2"
  shows "(unsafe_by_spec my_head my_body opponents w h m \<longrightarrow>
            \<not> snd (evaluate_basic_safety my_head my_body opponents w h sc) m
            \<and> fst (evaluate_basic_safety my_head my_body opponents w h sc) m = sc m - 10000)
       \<and> (\<not> unsafe_by_spec my_head my_body opponents w h m \<longrightarrow>
            snd (evaluate_basic_safety my_head my_body opponents w h sc) m
            \<and> fst (evaluate_basic_safety my_head my_body opponents w h sc) m = sc m)"
  using evaluate_basic_safety_at [OF assms, of my_head opponents w h sc m] by simp

theorem safety_filter_marks_exactly_witness:
  "length (body (you population_a)) \<ge> 2
   \<and> unsafe_by_spec \<lparr>pos_x = 5, pos_y = 5\<rparr> (body (you population_a))
        (opponents_of population_a) 11 11 Left
   \<and> \<not> snd (evaluate_basic_safety \<lparr>pos_x = 5, pos_y = 5\<rparr> (body (you population_a))
            (opponents_of population_a) 11 11 (\<lambda>m. 0)) Left
   \<and> fst (evaluate_basic_safety \<lparr>pos_x = 5, pos_y = 5\<rparr> (body (you population_a))
          (opponents_of population_a) 11 11 (\<lambda>m. 0)) Left = - 10000
   \<and> \<not> unsafe_by_spec \<lparr>pos_x = 5, pos_y = 5\<rparr> (body (you population_a))
        (opponents_of population_a) 11 11 Up
   \<and> snd (evaluate_basic_safety \<lparr>pos_x = 5, pos_y = 5\<rparr> (body (you population_a))
          (opponents_of population_a) 11 11 (\<lambda>m. 0)) Up
   \<and> fst (evaluate_basic_safety \<lparr>pos_x = 5, pos_y = 5\<rparr> (body (you population_a))
          (opponents_of population_a) 11 11 (\<lambda>m. 0)) Up = 0"
proof -
  have l: "length (body (you population_a)) \<ge> 2" by (simp add: population_a_def)
  have u: "unsafe_by_spec \<lparr>pos_x = 5, pos_y = 5\<rparr> (body (you population_a))
        (opponents_of population_a) 11 11 Left"
    by (simp add: unsafe_by_spec_def population_a_def)
  have s: "\<not> unsafe_by_spec \<lparr>pos_x = 5, pos_y = 5\<rparr> (body (you population_a))
        (opponents_of population_a) 11 11 Up"
    by (simp add: unsafe_by_spec_def population_a_def opponents_of_def)
  show ?thesis
    using l u s
      safety_filter_marks_exactly [OF l, of "\<lparr>pos_x = 5, pos_y = 5\<rparr>"
        "opponents_of population_a" 11 11 Left "\<lambda>m. 0"]
      safety_filter_marks_exactly [OF l, of "\<lparr>pos_x = 5, pos_y = 5\<rparr>"
        "opponents_of population_a" 11 11 Up "\<lambda>m. 0"]
    by simp
qed

section \<open>The reachability estimator\<close>

























section \<open>The decision\<close>

lemma max_from_mem: "max_from key b xs \<in> set (b # xs)"
  by (induction xs arbitrary: b) auto

lemma max_from_ge: "x \<in> set (b # xs) \<Longrightarrow> key x \<le> key (max_from key b xs)"
proof (induction xs arbitrary: b x)
  case Nil
  then show ?case by simp
next
  case (Cons a xs)
  let ?b = "if key a > key b then a else b"
  have r: "max_from key b (a # xs) = max_from key ?b xs" by simp
  have top: "key ?b \<le> key (max_from key ?b xs)" using Cons.IH [of ?b ?b] by simp
  from Cons.prems consider "x = b" | "x = a" | "x \<in> set xs" by auto
  then show ?case
  proof cases
    case 1
    then have "key x \<le> key ?b" by auto
    then show ?thesis using top r by (metis order_trans)
  next
    case 2
    then have "key x \<le> key ?b" by auto
    then show ?thesis using top r by (metis order_trans)
  next
    case 3
    then show ?thesis using Cons.IH [of x ?b] r by simp
  qed
qed

lemma max_from_first:
  assumes "sorted_wrt (\<lambda>u v. idx u < (idx v :: nat)) (b # xs)"
    and "x \<in> set (b # xs)" and "key x = key (max_from key b xs)"
  shows "idx (max_from key b xs) \<le> idx x"
  using assms
proof (induction xs arbitrary: b x)
  case Nil
  then show ?case by simp
next
  case (Cons a xs)
  let ?b = "if key a > key b then a else b"
  let ?r = "max_from key ?b xs"
  have r: "max_from key b (a # xs) = ?r" by simp
  have srt: "sorted_wrt (\<lambda>u v. idx u < idx v) (?b # xs)" using Cons.prems(1) by auto
  have top: "key ?b \<le> key ?r" using max_from_ge [of ?b ?b xs key] by simp
  have kx: "key x = key ?r" using Cons.prems(3) r by simp
  show ?case
  proof (cases "x \<in> set (?b # xs)")
    case True
    then show ?thesis using Cons.IH [OF srt True] kx r by simp
  next
    case False
    show ?thesis
    proof (cases "key a > key b")
      case True
      then have "x = b" using False Cons.prems(2) by auto
      then have "key x < key ?r" using True top by auto
      then show ?thesis using kx by simp
    next
      case nb: False
      then have xa: "x = a" using False Cons.prems(2) by auto
      have "key b = key ?r" using nb top kx xa by auto
      then have "idx ?r \<le> idx b" using Cons.IH [OF srt, of b] nb by simp
      moreover have "idx b < idx a" using Cons.prems(1) by simp
      ultimately show ?thesis using xa r by simp
    qed
  qed
qed

lemma first_argmax_sorted:
  assumes "sorted_wrt (\<lambda>a b. move_index a < move_index b) (b # xs)"
  shows "first_argmax sc (set (b # xs)) (max_from sc b xs)"
  unfolding first_argmax_def
  using max_from_mem [of sc b xs] max_from_ge [of _ b xs sc] max_from_first [OF assms, of _ sc]
  by blast

lemma sorted_possible_moves: "sorted_wrt (\<lambda>a b. move_index a < move_index b) possible_moves"
  by (simp add: possible_moves_def)

lemma sorted_safe_moves:
  "sorted_wrt (\<lambda>a b. move_index a < move_index b) (safe_moves_of mk sc)"
  unfolding safe_moves_of_def by (rule sorted_wrt_filter [OF sorted_possible_moves])

lemma set_possible_moves: "set possible_moves = UNIV"
proof -
  have "m \<in> set possible_moves" for m by (cases m) (simp_all add: possible_moves_def)
  then show ?thesis by blast
qed

lemma set_safe_moves: "set (safe_moves_of mk sc) = candidates mk sc"
  by (auto simp: safe_moves_of_def candidates_def set_possible_moves)

lemma py_max_first_argmax:
  assumes "sorted_wrt (\<lambda>a b. move_index a < move_index b) xs" and "xs \<noteq> []"
  shows "\<exists>r. py_max sc xs = Some r \<and> first_argmax sc (set xs) r"
proof (cases xs)
  case Nil
  then show ?thesis using assms by simp
next
  case (Cons b ys)
  then show ?thesis using first_argmax_sorted [of b ys sc] assms by simp
qed

lemma select_move_fallback:
  assumes "candidates mk sc = {}"
  shows "\<exists>r. select_move mk sc = Some r \<and> first_argmax sc UNIV r"
proof -
  have e: "safe_moves_of mk sc = []" using assms set_safe_moves [of mk sc] by simp
  have "possible_moves \<noteq> []" by (simp add: possible_moves_def)
  then show ?thesis
    using e py_max_first_argmax [OF sorted_possible_moves, of sc]
    by (simp add: select_move_def set_possible_moves)
qed

lemma select_move_among:
  assumes "candidates mk sc \<noteq> {}"
  shows "\<exists>r. select_move mk sc = Some r \<and> first_argmax sc (candidates mk sc) r"
proof -
  have ne: "safe_moves_of mk sc \<noteq> []" using assms set_safe_moves [of mk sc] by auto
  then show ?thesis
    using py_max_first_argmax [OF sorted_safe_moves ne, of sc]
    by (simp add: select_move_def set_safe_moves)
qed

text \<open>
  C2: the decision returns a move. When no move has a true mask and a score above
  -9000 it is the arg-max of the score table over all four moves; otherwise it is the
  arg-max among the moves with a true mask and a score above -9000. Ties go to the
  first move in the order up, down, left, right.
\<close>

theorem select_move_spec:
  "\<exists>r. select_move mk sc = Some r
     \<and> (if candidates mk sc = {} then first_argmax sc UNIV r
        else first_argmax sc (candidates mk sc) r)"
  using select_move_fallback [of mk sc] select_move_among [of mk sc]
  by (cases "candidates mk sc = {}") simp_all

theorem select_move_spec_witness:
  "select_move tie_mask tie_scores = Some Up
   \<and> candidates tie_mask tie_scores \<noteq> {}
   \<and> first_argmax tie_scores (candidates tie_mask tie_scores) Up"
proof -
  have e: "select_move tie_mask tie_scores = Some Up"
    by (simp add: select_move_def safe_moves_of_def possible_moves_def tie_mask_def
        tie_scores_def)
  have "Up \<in> candidates tie_mask tie_scores"
    by (simp add: candidates_def tie_mask_def tie_scores_def)
  then have c: "candidates tie_mask tie_scores \<noteq> {}" by blast
  show ?thesis using select_move_spec [of tie_mask tie_scores] e c by simp
qed

section \<open>Masked moves keep their score\<close>

lemma fold_frame:
  assumes "\<And>x s. g x s m = s m"
  shows "fold g xs s m = s m"
  using assms by (induction xs arbitrary: s) simp_all

lemma for_each_frame:
  assumes "\<And>x s s'. f x s = Some s' \<Longrightarrow> s' m = s m"
    and "for_each f xs s = Some s'"
  shows "s' m = s m"
  using assms(2)
proof (induction xs arbitrary: s)
  case Nil
  then show ?case by simp
next
  case (Cons x xs)
  then obtain s1 where a: "f x s = Some s1" and b: "for_each f xs s1 = Some s'"
    by (auto split: option.splits)
  then show ?case using Cons.IH [OF b] assms(1) [OF a] by simp
qed

lemma space_frame:
  assumes "\<not> mk m"
  shows "evaluate_space_availability hp l sc mk gs m = sc m"
  unfolding evaluate_space_availability_def
  by (rule fold_frame) (use assms in \<open>auto simp: space_step_def Let_def\<close>)

lemma hunting_frame:
  assumes "\<not> mk m"
  shows "apply_hunting_strategy hp ho sc mk m = sc m"
  unfolding apply_hunting_strategy_def
  by (rule fold_frame) (use assms in \<open>auto simp: Let_def\<close>)

lemma food_frame:
  assumes "\<not> mk m"
  shows "apply_food_seeking hp t sc mk wt m = sc m"
  unfolding apply_food_seeking_def
  by (rule fold_frame) (use assms in \<open>auto simp: Let_def\<close>)

lemma emergency_frame:
  assumes "\<not> mk m" and "evaluate_emergency_strategy_enhanced hp l hl fd opps sc mk gs = Some sc'"
  shows "sc' m = sc m"
  using assms
  by (auto simp: evaluate_emergency_strategy_enhanced_def emergency_decide_def Let_def
      hunting_frame food_frame split: option.splits if_splits)

lemma food_smart_frame:
  assumes "\<not> mk m" and "evaluate_food_seeking_smart hp fd sc mk crit need gs = Some sc'"
  shows "sc' m = sc m"
proof -
  have "fold (\<lambda>x s. if \<not> mk x then s
             else let next_pos = get_next_position hp x;
                      distance_to_best = manhattan_distance next_pos bf
                  in s(x := s x + fw / rat_of_int (distance_to_best + 1)))
          possible_moves sc m = sc m" for bf fw
    by (rule fold_frame) (use assms(1) in \<open>auto simp: Let_def\<close>)
  then show ?thesis using assms(2)
    by (auto simp: evaluate_food_seeking_smart_def Let_def split: option.splits)
qed

lemma aggressive_frame:
  assumes "\<not> mk m" and "evaluate_aggressive_strategy hp l opps sc mk = Some sc'"
  shows "sc' m = sc m"
proof (rule for_each_frame [OF _ assms(2) [unfolded evaluate_aggressive_strategy_def]])
  fix x s s'
  assume a: "aggressive_step hp l mk x s = Some s'"
  have 1: "fold (\<lambda>y t. if \<not> mk y then t
             else let next_pos = get_next_position hp y;
                      distance = manhattan_distance next_pos oh
                  in t(y := t y + 50 / rat_of_int (distance + 1)))
          possible_moves s m = s m" for oh
    by (rule fold_frame) (use assms(1) in \<open>auto simp: Let_def\<close>)
  have 2: "fold (\<lambda>y t. if \<not> mk y then t
             else let next_pos = get_next_position hp y;
                      distance = manhattan_distance next_pos oh
                  in if distance \<le> 2 then t(y := t y - 100 / rat_of_int (distance + 1)) else t)
          possible_moves s m = s m" for oh
    by (rule fold_frame) (use assms(1) in \<open>auto simp: Let_def\<close>)
  show "s' m = s m" using a 1 2
    by (auto simp: aggressive_step_def Let_def split: option.splits if_splits)
qed

lemma head_to_head_frame:
  assumes "\<not> mk m" and "evaluate_head_to_head_defense_enhanced hp l opps w h sc mk = Some sc'"
  shows "sc' m = sc m"
proof (rule for_each_frame [OF _ assms(2) [unfolded evaluate_head_to_head_defense_enhanced_def]])
  fix x s s'
  assume a: "head_to_head_step hp l w h mk x s = Some s'"
  have 1: "fold (\<lambda>y t. if \<not> mk y then t
             else let next_pos = get_next_position hp y
                  in if list_ex (positions_equal next_pos) pp
                     then let distance = manhattan_distance next_pos oh;
                              penalty = (if distance \<le> 1 then 400 + (ol - l) * 50
                                         else 200 + (ol - l) * 30)
                          in t(y := t y - rat_of_int penalty)
                     else t)
          possible_moves s m = s m" for oh pp ol
    by (rule fold_frame) (use assms(1) in \<open>auto simp: Let_def\<close>)
  show "s' m = s m" using a 1
    by (auto simp: head_to_head_step_def Let_def split: option.splits if_splits)
qed

lemma position_frame:
  assumes "\<not> mk m"
  shows "evaluate_position_preference hp w h sc mk m = sc m"
  unfolding evaluate_position_preference_def Let_def
  by (rule fold_frame) (use assms in \<open>auto simp: Let_def\<close>)

lemma final_scores_masked:
  assumes "final_scores gs = Some (sc, mk)" and "\<not> mk m"
  shows "sc m = - 10000"
proof -
  from assms(1) obtain my_head rest where b: "body (you gs) = my_head # rest"
    by (cases "body (you gs)") (auto simp: final_scores_def)
  define st where "st = evaluate_basic_safety my_head (body (you gs)) (opponents_of gs)
                  (width (board gs)) (height (board gs)) (\<lambda>m. 0)"
  define sc1 where "sc1 = evaluate_space_availability my_head (int (length (body (you gs))))
                  (fst st) (snd st) gs"
  from assms(1) b obtain sc2 sc3 sc4 where
    mk: "mk = snd st"
    and s2: "sc2 = sc1 \<or> evaluate_emergency_strategy_enhanced my_head (int (length (body (you gs))))
               (health (you gs)) (food (board gs)) (opponents_of gs) sc1 mk gs = Some sc2
             \<or> evaluate_food_seeking_smart my_head (food (board gs)) sc1 mk
                 (health (you gs) < CRITICAL_HEALTH_THRESHOLD)
                 (health (you gs) < LOW_HEALTH_THRESHOLD) gs = Some sc2"
    and s3: "sc3 = sc2 \<or> evaluate_aggressive_strategy my_head (int (length (body (you gs))))
               (opponents_of gs) sc2 mk = Some sc3"
    and s4: "sc4 = sc3 \<or> evaluate_head_to_head_defense_enhanced my_head
               (int (length (body (you gs)))) (opponents_of gs) (width (board gs))
               (height (board gs)) sc3 mk = Some sc4"
    and s5: "sc = evaluate_position_preference my_head (width (board gs)) (height (board gs))
               sc4 mk"
    unfolding final_scores_def st_def sc1_def
    by (auto simp: Let_def split: Option.bind_splits if_splits)
  have "\<not> snd st m" using assms(2) mk by simp
  then have "fst st m = - 10000"
    using evaluate_basic_safety_cases [of my_head "body (you gs)" "opponents_of gs"
        "width (board gs)" "height (board gs)" "\<lambda>m. 0" m]
    by (simp add: st_def)
  then have "sc1 m = - 10000"
    using space_frame [where mk = "snd st" and m = m] \<open>\<not> snd st m\<close> by (simp add: sc1_def)
  then have "sc2 m = - 10000"
    using s2 emergency_frame [where mk = mk and m = m, OF assms(2)] food_smart_frame [where mk = mk and m = m, OF assms(2)] by metis
  then have "sc3 m = - 10000"
    using s3 aggressive_frame [where mk = mk and m = m, OF assms(2)] by metis
  then have "sc4 m = - 10000"
    using s4 head_to_head_frame [where mk = mk and m = m, OF assms(2)] by metis
  then show ?thesis using s5 position_frame [where mk = mk and m = m, OF assms(2)] by simp
qed

text \<open>
  C10: for a move whose mask is false, the space evaluation, the emergency projection,
  the food seeking, the aggressive strategy, the head-to-head defence and the position
  preference each leave its score as it was; and in every snapshot on which the engine
  returns, a move the safety filter masked ends the scoring passes with the score
  -10000.
\<close>

theorem masked_scores_frame:
  assumes "\<not> mk m"
  shows "evaluate_space_availability hp l sc mk gs m = sc m
    \<and> (\<forall>sc'. evaluate_emergency_strategy_enhanced hp l hl fd opps sc mk gs = Some sc'
          \<longrightarrow> sc' m = sc m)
    \<and> (\<forall>sc'. evaluate_food_seeking_smart hp fd sc mk crit need gs = Some sc'
          \<longrightarrow> sc' m = sc m)
    \<and> (\<forall>sc'. evaluate_aggressive_strategy hp l opps sc mk = Some sc' \<longrightarrow> sc' m = sc m)
    \<and> (\<forall>sc'. evaluate_head_to_head_defense_enhanced hp l opps w h sc mk = Some sc'
          \<longrightarrow> sc' m = sc m)
    \<and> evaluate_position_preference hp w h sc mk m = sc m
    \<and> (move_mask gs' m = Some False \<longrightarrow> move_score gs' m = Some (- 10000))"
proof (intro conjI allI impI)
  show "evaluate_space_availability hp l sc mk gs m = sc m"
    by (rule space_frame [where mk = mk and m = m, OF assms])
  show "sc' m = sc m"
    if "evaluate_emergency_strategy_enhanced hp l hl fd opps sc mk gs = Some sc'" for sc'
    by (rule emergency_frame [where mk = mk and m = m, OF assms that])
  show "sc' m = sc m"
    if "evaluate_food_seeking_smart hp fd sc mk crit need gs = Some sc'" for sc'
    by (rule food_smart_frame [where mk = mk and m = m, OF assms that])
  show "sc' m = sc m" if "evaluate_aggressive_strategy hp l opps sc mk = Some sc'" for sc'
    by (rule aggressive_frame [where mk = mk and m = m, OF assms that])
  show "sc' m = sc m"
    if "evaluate_head_to_head_defense_enhanced hp l opps w h sc mk = Some sc'" for sc'
    by (rule head_to_head_frame [where mk = mk and m = m, OF assms that])
  show "evaluate_position_preference hp w h sc mk m = sc m"
    by (rule position_frame [where mk = mk and m = m, OF assms])
  show "move_score gs' m = Some (- 10000)" if "move_mask gs' m = Some False"
  proof -
    from that obtain s k where f: "final_scores gs' = Some (s, k)" and "\<not> k m"
      by (auto simp: move_mask_def)
    then show ?thesis using final_scores_masked [OF f] by (simp add: move_score_def)
  qed
qed

lemma pocket_mask_left: "move_mask pocket_state Left = Some False"
  by code_simp

lemma tie_aggressive:
  "map_option (\<lambda>s. s Left)
     (evaluate_aggressive_strategy \<lparr>pos_x = 5, pos_y = 5\<rparr> 3 (opponents_of population_a)
        tie_scores tie_mask) = Some (- 10000)"
  by code_simp

lemma tie_head_to_head:
  "map_option (\<lambda>s. s Left)
     (evaluate_head_to_head_defense_enhanced \<lparr>pos_x = 5, pos_y = 5\<rparr> 3
        (opponents_of population_a) 11 11 tie_scores tie_mask) = Some (- 10000)"
  by code_simp

theorem masked_scores_frame_witness:
  "\<not> tie_mask Left
   \<and> evaluate_space_availability \<lparr>pos_x = 5, pos_y = 5\<rparr> 3 tie_scores tie_mask population_a Left
       = tie_scores Left
   \<and> map_option (\<lambda>s. s Left)
       (evaluate_aggressive_strategy \<lparr>pos_x = 5, pos_y = 5\<rparr> 3 (opponents_of population_a)
          tie_scores tie_mask) = Some (tie_scores Left)
   \<and> map_option (\<lambda>s. s Left)
       (evaluate_head_to_head_defense_enhanced \<lparr>pos_x = 5, pos_y = 5\<rparr> 3
          (opponents_of population_a) 11 11 tie_scores tie_mask) = Some (tie_scores Left)
   \<and> evaluate_position_preference \<lparr>pos_x = 5, pos_y = 5\<rparr> 11 11 tie_scores tie_mask Left
       = tie_scores Left
   \<and> move_mask pocket_state Left = Some False
   \<and> move_score pocket_state Left = Some (- 10000)"
proof -
  have m: "\<not> tie_mask Left" by (simp add: tie_mask_def)
  have t: "tie_scores Left = - 10000" by (simp add: tie_scores_def)
  from masked_scores_frame [where mk = tie_mask and m = Left and sc = tie_scores
      and hp = "\<lparr>pos_x = 5, pos_y = 5\<rparr>" and l = 3 and gs = population_a
      and w = 11 and h = 11 and gs' = pocket_state, OF m]
  show ?thesis using m t pocket_mask_left tie_aggressive tie_head_to_head by simp
qed

section \<open>The emergency strategy\<close>

lemma apply_hunting_strategy_at:
  "apply_hunting_strategy hp ho sc mk m = projection_weighted hp (Hunt ho) sc mk m"
  by (cases m) (simp_all add: apply_hunting_strategy_def projection_weighted_def
      possible_moves_def Let_def)

lemma apply_food_seeking_at:
  "apply_food_seeking hp (fo_target f) sc mk 500 m = projection_weighted hp (Feed f) sc mk m"
  by (cases m) (simp_all add: apply_food_seeking_def projection_weighted_def
      possible_moves_def Let_def)

lemma emergency_decide_at:
  "emergency_decide hp fo ho sc mk m = projection_weighted hp (arbitrate_by_spec fo ho) sc mk m"
  by (auto simp: emergency_decide_def arbitrate_by_spec_def apply_hunting_strategy_at
      apply_food_seeking_at mult.commute split: option.splits)
    (simp_all add: projection_weighted_def)

text \<open>
  C9 amended: when the search for a hunt option raises no error, the emergency strategy
  returns a score table. With both options, hunt is chosen only if its score exceeds
  twice the food option's score, its chase path is safe and its third-party risk is
  below 100, and food is chosen otherwise; a single option is chosen. Each move with a
  true mask receives the hunt score divided by its distance to the target plus one when
  hunt is chosen, and 500 divided by its distance to the food plus one when food is
  chosen; a move with a false mask keeps its score.
\<close>

theorem emergency_arbitration:
  assumes "best_hunt_option_of hp l hl opps gs = Some ho"
  shows "\<exists>sc'. evaluate_emergency_strategy_enhanced hp l hl fd opps sc mk gs = Some sc'
     \<and> (\<forall>m. sc' m = projection_weighted hp
                        (arbitrate_by_spec (best_food_option_of hp hl fd) ho) sc mk m)"
  using assms
  by (simp add: evaluate_emergency_strategy_enhanced_def Let_def emergency_decide_at)

lemma hunting_best_hunt:
  "best_hunt_option_of \<lparr>pos_x = 1, pos_y = 1\<rparr> 5 14 (opponents_of hunting_state) hunting_state
     = Some (Some \<lparr>ho_target = \<lparr>pos_x = 3, pos_y = 1\<rparr>, ho_distance = 2, ho_score = 80,
                  ho_third_party_risk = 0, ho_path_safe = True\<rparr>)"
  by code_simp

lemma hunting_best_food:
  "best_food_option_of \<lparr>pos_x = 1, pos_y = 1\<rparr> 14 (food (board hunting_state))
     = Some \<lparr>fo_target = \<lparr>pos_x = 10, pos_y = 5\<rparr>, fo_distance = 13, fo_score = 250 / 7\<rparr>"
  by code_simp

lemma hunting_right:
  "map_option (\<lambda>s. s Right)
     (evaluate_emergency_strategy_enhanced \<lparr>pos_x = 1, pos_y = 1\<rparr> 5 14
        (food (board hunting_state)) (opponents_of hunting_state) (\<lambda>m. 0) hunting_mask
        hunting_state) = Some 40"
  by code_simp

theorem emergency_arbitration_witness:
  "best_hunt_option_of \<lparr>pos_x = 1, pos_y = 1\<rparr> 5 14 (opponents_of hunting_state) hunting_state
     = Some (Some \<lparr>ho_target = \<lparr>pos_x = 3, pos_y = 1\<rparr>, ho_distance = 2, ho_score = 80,
                  ho_third_party_risk = 0, ho_path_safe = True\<rparr>)
   \<and> arbitrate_by_spec
        (best_food_option_of \<lparr>pos_x = 1, pos_y = 1\<rparr> 14 (food (board hunting_state)))
        (Some \<lparr>ho_target = \<lparr>pos_x = 3, pos_y = 1\<rparr>, ho_distance = 2, ho_score = 80,
               ho_third_party_risk = 0, ho_path_safe = True\<rparr>)
      = Hunt \<lparr>ho_target = \<lparr>pos_x = 3, pos_y = 1\<rparr>, ho_distance = 2, ho_score = 80,
               ho_third_party_risk = 0, ho_path_safe = True\<rparr>
   \<and> map_option (\<lambda>s. s Right)
       (evaluate_emergency_strategy_enhanced \<lparr>pos_x = 1, pos_y = 1\<rparr> 5 14
          (food (board hunting_state)) (opponents_of hunting_state) (\<lambda>m. 0) hunting_mask
          hunting_state) = Some (0 + 80 / 2)"
proof -
  have a: "arbitrate_by_spec
        (best_food_option_of \<lparr>pos_x = 1, pos_y = 1\<rparr> 14 (food (board hunting_state)))
        (Some \<lparr>ho_target = \<lparr>pos_x = 3, pos_y = 1\<rparr>, ho_distance = 2, ho_score = 80,
               ho_third_party_risk = 0, ho_path_safe = True\<rparr>)
      = Hunt \<lparr>ho_target = \<lparr>pos_x = 3, pos_y = 1\<rparr>, ho_distance = 2, ho_score = 80,
               ho_third_party_risk = 0, ho_path_safe = True\<rparr>"
    by (simp add: hunting_best_food arbitrate_by_spec_def)
  from emergency_arbitration [OF hunting_best_hunt, of "food (board hunting_state)"
      "\<lambda>m. 0" hunting_mask]
  show ?thesis using hunting_best_hunt a
    by (auto simp: projection_weighted_def hunting_mask_def manhattan_distance_def)
qed

lemma hungry_best_food:
  "best_food_option_of \<lparr>pos_x = 5, pos_y = 5\<rparr> 10 (food (board hungry_state))
     = Some \<lparr>fo_target = \<lparr>pos_x = 7, pos_y = 5\<rparr>, fo_distance = 2, fo_score = 500 / 3\<rparr>"
  by code_simp

lemma hungry_best_hunt:
  "best_hunt_option_of \<lparr>pos_x = 5, pos_y = 5\<rparr> 3 10 (opponents_of hungry_state) hungry_state
     = Some None"
  by code_simp

lemma hungry_right:
  "map_option (\<lambda>s. s Right)
     (evaluate_emergency_strategy_enhanced \<lparr>pos_x = 5, pos_y = 5\<rparr> 3 10
        (food (board hungry_state)) (opponents_of hungry_state) (\<lambda>m. 0) hungry_mask
        hungry_state) = Some 250"
  by code_simp

lemma hungry_by_spec:
  "projection_by_spec \<lparr>pos_x = 5, pos_y = 5\<rparr>
     (arbitrate_by_spec
        (Some \<lparr>fo_target = \<lparr>pos_x = 7, pos_y = 5\<rparr>, fo_distance = 2, fo_score = 500 / 3\<rparr>) None)
     (\<lambda>m. 0) hungry_mask Right = 250 / 3"
  by (simp add: projection_by_spec_def arbitrate_by_spec_def hungry_mask_def
      manhattan_distance_def)

text \<open>
  C9 as stated fails on the first emergency snapshot. Only the food option exists, with
  the score 500/3 at distance 2. The move right leads to distance 1 from the food; the
  option's score over the distance plus one is (500/3)/2 = 250/3, and the code adds
  500/2 = 250.
\<close>

theorem emergency_food_projection_counterexample:
  "health (you hungry_state) < 15
   \<and> opponents_of hungry_state \<noteq> []
   \<and> best_food_option_of \<lparr>pos_x = 5, pos_y = 5\<rparr> 10 (food (board hungry_state))
       = Some \<lparr>fo_target = \<lparr>pos_x = 7, pos_y = 5\<rparr>, fo_distance = 2, fo_score = 500 / 3\<rparr>
   \<and> best_hunt_option_of \<lparr>pos_x = 5, pos_y = 5\<rparr> 3 10 (opponents_of hungry_state) hungry_state
       = Some None
   \<and> projection_by_spec \<lparr>pos_x = 5, pos_y = 5\<rparr>
       (arbitrate_by_spec
          (Some \<lparr>fo_target = \<lparr>pos_x = 7, pos_y = 5\<rparr>, fo_distance = 2, fo_score = 500 / 3\<rparr>) None)
       (\<lambda>m. 0) hungry_mask Right = 250 / 3
   \<and> map_option (\<lambda>s. s Right)
       (evaluate_emergency_strategy_enhanced \<lparr>pos_x = 5, pos_y = 5\<rparr> 3 10
          (food (board hungry_state)) (opponents_of hungry_state) (\<lambda>m. 0) hungry_mask
          hungry_state) = Some 250
   \<and> (250 :: rat) \<noteq> 250 / 3"
proof -
  have "health (you hungry_state) < 15" by (simp add: hungry_state_def hungry_snake_def)
  moreover have "opponents_of hungry_state \<noteq> []"
    by (simp add: opponents_of_def hungry_state_def hungry_snake_def)
  ultimately show ?thesis
    using hungry_best_food hungry_best_hunt hungry_by_spec hungry_right by simp
qed

section \<open>The chosen move and the mask\<close>

lemma final_scores_mask:
  assumes "final_scores gs = Some (sc, mk)"
  shows "\<exists>my_head rest. body (you gs) = my_head # rest
     \<and> mk = snd (evaluate_basic_safety my_head (body (you gs)) (opponents_of gs)
                  (width (board gs)) (height (board gs)) (\<lambda>m. 0))"
proof (cases "body (you gs)")
  case Nil
  then show ?thesis using assms by (simp add: final_scores_def)
next
  case (Cons my_head rest)
  then show ?thesis using assms
    by (auto simp: final_scores_def Let_def split: Option.bind_splits)
qed

text \<open>
  A move with a true mask and a final score above -10000 makes the decision return a
  move with a true mask: among the candidates when there are some, and otherwise the
  arg-max over all four moves, which the masked moves at -10000 cannot be.
\<close>

lemma select_unmasked:
  assumes "final_scores gs = Some (sc, mk)" and "mk m" and "sc m > - 10000"
  shows "\<exists>r. select_move mk sc = Some r \<and> mk r"
proof (cases "candidates mk sc = {}")
  case False
  from select_move_among [OF False] show ?thesis
    by (auto simp: first_argmax_def candidates_def)
next
  case True
  from select_move_fallback [OF True] obtain r where
    r: "select_move mk sc = Some r" and a: "first_argmax sc UNIV r" by blast
  have "sc m \<le> sc r" using a by (simp add: first_argmax_def)
  then have "sc r > - 10000" using assms(3) by simp
  then have "mk r" using final_scores_masked [OF assms(1), of r] by auto
  then show ?thesis using r by blast
qed

text \<open>
  C1 amended: whenever some move ends the scoring passes with a true mask and a score
  above -10000, the engine returns a move and the returned move has a true mask.
\<close>

theorem chosen_move_is_unmasked:
  assumes "move_mask gs m = Some True" and "move_score gs m = Some s" and "s > - 10000"
  shows "\<exists>r. move gs = Some r \<and> move_mask gs r = Some True"
proof -
  from assms(1) obtain sc mk where f: "final_scores gs = Some (sc, mk)"
    by (auto simp: move_mask_def)
  then have "mk m" and "sc m > - 10000"
    using assms by (simp_all add: move_mask_def move_score_def)
  from select_unmasked [OF f this] obtain r where
    "select_move mk sc = Some r" and "mk r" by blast
  then show ?thesis using f by (simp add: move_def move_mask_def)
qed

lemma pa_move: "move population_a = Some Up"
  by code_simp

lemma pa_mask_up: "move_mask population_a Up = Some True"
  by code_simp

lemma pa_mask_right: "move_mask population_a Right = Some True"
  by code_simp

lemma pa_score_right: "move_score population_a Right = Some (185 / 2)"
  by code_simp

theorem chosen_move_is_unmasked_witness:
  "move_mask population_a Right = Some True
   \<and> move_score population_a Right = Some (185 / 2)
   \<and> (185 / 2 :: rat) > - 10000
   \<and> move population_a = Some Up
   \<and> move_mask population_a Up = Some True"
proof -
  have h: "(185 / 2 :: rat) > - 10000" by simp
  from chosen_move_is_unmasked [OF pa_mask_right pa_score_right h]
  show ?thesis using pa_mask_right pa_score_right pa_move pa_mask_up by simp
qed

lemma pocket_move: "move pocket_state = Some Up"
  by code_simp

lemma pocket_mask_up: "move_mask pocket_state Up = Some False"
  by code_simp

lemma pocket_mask_right: "move_mask pocket_state Right = Some True"
  by code_simp

lemma pocket_score_right: "move_score pocket_state Right = Some (- 10040 + 5 / 19)"
  by code_simp

text \<open>
  C1 as stated fails on the pocket snapshot. The move right has a true mask, but its
  reachable space is 1 against a length of 198, so the space pass leaves it at
  10 - 197 * 50 - 200 = -10040, and the centre preference adds 5/19. No move is a
  candidate, the fallback takes the arg-max over all four moves, and the three masked
  moves at -10000 beat it: the engine returns up, whose mask is false.
\<close>

theorem masked_move_chosen_counterexample:
  "move_mask pocket_state Right = Some True
   \<and> move_score pocket_state Right = Some (- 10040 + 5 / 19)
   \<and> move pocket_state = Some Up
   \<and> move_mask pocket_state Up = Some False"
  using pocket_move pocket_mask_up pocket_mask_right pocket_score_right by simp

lemma neck_unsafe:
  assumes "length bd \<ge> 2" and "snd (evaluate_basic_safety hp bd opps w h sc) m"
  shows "get_next_position hp m \<noteq> bd ! 1"
  using evaluate_basic_safety_at [OF assms(1), of hp opps w h sc m] assms(2)
  by (auto simp: unsafe_by_spec_def Let_def)

text \<open>
  C4 amended: with a body of at least two segments, whenever some move ends the scoring
  passes with a true mask and a score above -10000, the engine returns a move and the
  returned move does not lead onto the neck coordinate.
\<close>

theorem neck_move_not_chosen:
  assumes "length (body (you gs)) \<ge> 2"
    and "move_mask gs m = Some True" and "move_score gs m = Some s" and "s > - 10000"
  shows "\<exists>r. move gs = Some r \<and> get_next_position (body (you gs) ! 0) r \<noteq> body (you gs) ! 1"
proof -
  from assms(2) obtain sc mk where f: "final_scores gs = Some (sc, mk)"
    by (auto simp: move_mask_def)
  then have "mk m" and "sc m > - 10000"
    using assms by (simp_all add: move_mask_def move_score_def)
  from select_unmasked [OF f this] obtain r where
    r: "select_move mk sc = Some r" and c: "mk r" by blast
  from final_scores_mask [OF f] obtain my_head rest where
    b: "body (you gs) = my_head # rest"
    and mk: "mk = snd (evaluate_basic_safety my_head (body (you gs)) (opponents_of gs)
                  (width (board gs)) (height (board gs)) (\<lambda>m. 0))" by blast
  have "get_next_position my_head r \<noteq> body (you gs) ! 1"
    using neck_unsafe [OF assms(1)] mk c by blast
  then show ?thesis using r f b by (simp add: move_def)
qed

theorem neck_move_not_chosen_witness:
  "length (body (you population_a)) \<ge> 2
   \<and> move_mask population_a Right = Some True
   \<and> move_score population_a Right = Some (185 / 2)
   \<and> (185 / 2 :: rat) > - 10000
   \<and> move population_a = Some Up
   \<and> get_next_position (body (you population_a) ! 0) Up \<noteq> body (you population_a) ! 1"
proof -
  have l: "length (body (you population_a)) \<ge> 2" by (simp add: population_a_def)
  have h: "(185 / 2 :: rat) > - 10000" by simp
  from neck_move_not_chosen [OF l pa_mask_right pa_score_right h]
  show ?thesis using l pa_mask_right pa_score_right pa_move by simp
qed

lemma pocket_len: "length (body (you pocket_state)) \<ge> 2"
  by (simp add: pocket_state_def pocket_snake_def)

lemma pocket_neck:
  "get_next_position (body (you pocket_state) ! 0) Up = body (you pocket_state) ! 1"
  by (simp add: pocket_state_def pocket_snake_def)

text \<open>
  C4 as stated fails on the pocket snapshot: the move right has a true mask, and the
  engine returns up, which leads from the head (0, 0) onto the neck (0, 1).
\<close>

theorem neck_move_chosen_counterexample:
  "length (body (you pocket_state)) \<ge> 2
   \<and> get_next_position (body (you pocket_state) ! 0) Up = body (you pocket_state) ! 1
   \<and> move_mask pocket_state Right = Some True
   \<and> move pocket_state = Some Up"
  using pocket_len pocket_neck pocket_mask_right pocket_move by simp

end
